theory Spec2Isabelle
  imports Complex_Main
begin

section \<open>Loan data model (js/core/DataModels.js)\<close>

text \<open>
  JavaScript numbers that carry money amounts and interest rates are modelled as
  exact reals; month and year indices, which the callers produce as whole numbers,
  are modelled as integers. A nullable field is an \<open>option\<close>. Where the JavaScript
  arithmetic leaves the finite numbers (a division by zero, the logarithm of a
  non-positive number) the model returns \<open>None\<close> instead of a number, and the loan
  simulation stops with \<open>NonFiniteArithmetic\<close>. That value is no exception of the
  code: the code raises nothing there, it goes on with \<open>Infinity\<close> or NaN and returns
  a result that holds them. A run that ends in \<open>NonFiniteArithmetic\<close> is a run whose
  figures the model does not describe, and what is proved of the results \<open>Inr res\<close> is
  proved of the runs that stay within the finite numbers. Rounding is not modelled: the
  sums, products and quotients are the exact ones.
\<close>

datatype strategy = REDUCE_TENURE | REDUCE_EMI

text \<open>The remainder operator \<open>%\<close> of JavaScript truncates towards zero.\<close>

definition js_rem :: "int \<Rightarrow> int \<Rightarrow> int" where
  "js_rem a b = sgn a * (\<bar>a\<bar> mod \<bar>b\<bar>)"

record InterestRatePeriod =
  irp_startMonth :: int
  irp_rate :: real
  irp_endMonth :: "int option"

definition irp_isActiveForMonth :: "InterestRatePeriod \<Rightarrow> int \<Rightarrow> bool" where
  "irp_isActiveForMonth p month \<longleftrightarrow>
     month \<ge> irp_startMonth p \<and>
     (case irp_endMonth p of None \<Rightarrow> True | Some e \<Rightarrow> month \<le> e)"

record MonthlyPrepayment =
  mp_amount :: real
  mp_startMonth :: int
  mp_endMonth :: "int option"
  mp_strategy :: "strategy option"

definition mp_isActiveForMonth :: "MonthlyPrepayment \<Rightarrow> int \<Rightarrow> bool" where
  "mp_isActiveForMonth p month \<longleftrightarrow>
     month \<ge> mp_startMonth p \<and>
     (case mp_endMonth p of None \<Rightarrow> True | Some e \<Rightarrow> month \<le> e)"

record YearlyPrepayment =
  yp_amount :: real
  yp_targetMonth :: int
  yp_startYear :: int
  yp_endYear :: "int option"
  yp_strategy :: "strategy option"

definition yp_isActiveForMonth :: "YearlyPrepayment \<Rightarrow> int \<Rightarrow> bool" where
  "yp_isActiveForMonth p month \<longleftrightarrow>
     (let yearOfLoan = \<lceil>real_of_int month / 12\<rceil>;
          monthInYear = js_rem (month - 1) 12 + 1
      in monthInYear = yp_targetMonth p \<and>
         yearOfLoan \<ge> yp_startYear p \<and>
         (case yp_endYear p of None \<Rightarrow> True | Some e \<Rightarrow> yearOfLoan \<le> e))"

record OneTimePrepayment =
  otp_amount :: real
  otp_month :: int
  otp_strategy :: "strategy option"

definition otp_isActiveForMonth :: "OneTimePrepayment \<Rightarrow> int \<Rightarrow> bool" where
  "otp_isActiveForMonth p month \<longleftrightarrow> month = otp_month p"

record PrepaymentStrategy =
  monthly :: "MonthlyPrepayment list"
  yearly :: "YearlyPrepayment list"
  oneTime :: "OneTimePrepayment list"

record LoanConfiguration =
  principal :: real
  baseTenureMonths :: int
  interestRateSchedule :: "InterestRatePeriod list"
  prepaymentStrategy :: PrepaymentStrategy
  defaultStrategy :: strategy

text \<open>\<open>addRatePeriod\<close>: push, then sort by \<open>startMonth\<close> (Array.prototype.sort is stable).\<close>

definition addRatePeriod ::
  "InterestRatePeriod list \<Rightarrow> int \<Rightarrow> real \<Rightarrow> int option \<Rightarrow> InterestRatePeriod list" where
  "addRatePeriod sched startMonth rate endMonth =
     sort_key irp_startMonth
       (sched @ [\<lparr>irp_startMonth = startMonth, irp_rate = rate, irp_endMonth = endMonth\<rparr>])"

text \<open>
  \<open>getInterestRateForMonth\<close>: the \<open>for\<close> loop overwrites \<open>applicableRate\<close> at every
  active period; the fallback is \<open>interestRateSchedule[0]?.rate || 0\<close>.
\<close>

definition getInterestRateForMonth :: "InterestRatePeriod list \<Rightarrow> int \<Rightarrow> real" where
  "getInterestRateForMonth sched month =
     (let applicableRate =
            foldl (\<lambda>acc period. if irp_isActiveForMonth period month
                                  then Some (irp_rate period) else acc) None sched
      in case applicableRate of
           Some r \<Rightarrow> r
         | None \<Rightarrow> (case sched of [] \<Rightarrow> 0
                    | p # _ \<Rightarrow> (if irp_rate p = 0 then 0 else irp_rate p)))"

text \<open>\<open>validate\<close>: the list of violations; the configuration is valid when it is empty.\<close>

datatype config_violation =
    PrincipalNotPositive
  | TenureNotPositive
  | NoRatePeriod
  | ExplicitOverlap int

fun overlap_violations :: "InterestRatePeriod list \<Rightarrow> config_violation list" where
  "overlap_violations (current # next # rest) =
     (case irp_endMonth current of
        Some e \<Rightarrow> (if irp_startMonth next \<le> e then [ExplicitOverlap (irp_startMonth next)] else [])
      | None \<Rightarrow> [])
     @ overlap_violations (next # rest)"
| "overlap_violations _ = []"

definition validate :: "LoanConfiguration \<Rightarrow> config_violation list" where
  "validate cfg =
     (if principal cfg \<le> 0 then [PrincipalNotPositive] else [])
     @ (if baseTenureMonths cfg \<le> 0 then [TenureNotPositive] else [])
     @ (if interestRateSchedule cfg = [] then [NoRatePeriod] else [])
     @ overlap_violations (interestRateSchedule cfg)"

section \<open>Advanced loan calculator (v1/js/core/LoanCalculator.js)\<close>

datatype calc_error =
    InvalidConfiguration "config_violation list"
  | NonFiniteArithmetic

record AmortizationRow =
  row_month :: int
  row_balance :: real
  row_interest :: real
  row_principal :: real
  row_emi :: real
  row_prepayment :: real
  row_prepaymentType :: string
  row_rate :: real
  row_strategy :: "strategy option"

record PrepaymentInfo =
  pi_amount :: real
  pi_type :: string
  pi_strategy :: "strategy option"

text \<open>
  \<open>calculateEMI\<close>. The quotient is not a finite number when \<open>(1 + r) ^ months = 1\<close> with
  \<open>r \<noteq> 0\<close>; that case is \<open>None\<close>.
\<close>

definition calculateEMI :: "real \<Rightarrow> real \<Rightarrow> int \<Rightarrow> real option" where
  "calculateEMI principal' annualRate months =
     (if principal' \<le> 0 \<or> months \<le> 0 then Some 0
      else let r = annualRate / 100 / 12 in
        if r = 0 then Some (principal' / real_of_int months)
        else if (1 + r) ^ nat months - 1 = 0 then None
        else Some ((principal' * r * (1 + r) ^ nat months) / ((1 + r) ^ nat months - 1)))"

definition calculateInitialEMI :: "LoanConfiguration \<Rightarrow> real option" where
  "calculateInitialEMI cfg =
     (case interestRateSchedule cfg of
        [] \<Rightarrow> None
      | p # _ \<Rightarrow> calculateEMI (principal cfg) (irp_rate p) (baseTenureMonths cfg))"

text \<open>
  \<open>estimateRemainingMonths\<close>, with \<open>this.currentEMI\<close> and \<open>baseTenureMonths\<close> as
  parameters. With \<open>r \<noteq> 0\<close> the source takes \<open>Math.log\<close> of \<open>EMI / (EMI - P*r)\<close> and of
  \<open>1 + r\<close>: a negative argument gives NaN, which passes both sanity checks and is
  returned (\<open>None\<close> here; this is the case of a payment below the month's interest,
  for which this version has no guard); \<open>EMI - P*r = 0\<close> gives an infinite quotient, cut
  to twice the base tenure; \<open>1 + r = 0\<close> gives a zero quotient, raised to 1. The
  logarithms and the ceiling are the exact ones.
\<close>

definition estimateRemainingMonths :: "int \<Rightarrow> real \<Rightarrow> real \<Rightarrow> real \<Rightarrow> int option" where
  "estimateRemainingMonths baseTenure currentEMI balance annualRate =
     (if balance \<le> 0 \<or> currentEMI \<le> 0 then Some 0
      else let r = annualRate / 100 / 12 in
        if r = 0 then Some \<lceil>balance / currentEMI\<rceil>
        else if 1 + r < 0 \<or> currentEMI - balance * r < 0 then None
        else if 1 + r = 0 then Some 1
        else if currentEMI - balance * r = 0 then
          Some (baseTenure * 2)
        else
          let months = \<lceil>ln (currentEMI / (currentEMI - balance * r)) / ln (1 + r)\<rceil> in
          if months < 1 then Some 1
          else if months > baseTenure * 2 then Some (baseTenure * 2)
          else Some months)"

text \<open>\<open>getPrepaymentForMonth\<close>: three \<open>forEach\<close> passes over one accumulator.\<close>

type_synonym prep_acc = "real \<times> string list \<times> strategy option"

definition visit_prepayment ::
  "bool \<Rightarrow> real \<Rightarrow> string \<Rightarrow> strategy option \<Rightarrow> prep_acc \<Rightarrow> prep_acc" where
  "visit_prepayment active amount label strat acc =
     (case acc of (totalAmount, types, strategy) \<Rightarrow>
        if active
        then (totalAmount + amount, types @ [label],
              (case strat of Some s \<Rightarrow> Some s | None \<Rightarrow> strategy))
        else acc)"

fun join_types :: "string list \<Rightarrow> string" where
  "join_types [] = []"
| "join_types [t] = t"
| "join_types (t # ts) = t @ '' + '' @ join_types ts"

definition getPrepaymentForMonth :: "LoanConfiguration \<Rightarrow> int \<Rightarrow> PrepaymentInfo" where
  "getPrepaymentForMonth cfg month =
     (let acc1 = foldl (\<lambda>acc prep. visit_prepayment (mp_isActiveForMonth prep month)
                          (mp_amount prep) ''monthly'' (mp_strategy prep) acc)
                   (0, [], None) (monthly (prepaymentStrategy cfg));
          acc2 = foldl (\<lambda>acc prep. visit_prepayment (yp_isActiveForMonth prep month)
                          (yp_amount prep) ''yearly'' (yp_strategy prep) acc)
                   acc1 (yearly (prepaymentStrategy cfg));
          acc3 = foldl (\<lambda>acc prep. visit_prepayment (otp_isActiveForMonth prep month)
                          (otp_amount prep) ''lump-sum'' (otp_strategy prep) acc)
                   acc2 (oneTime (prepaymentStrategy cfg))
      in case acc3 of (totalAmount, types, strategy) \<Rightarrow>
           \<lparr>pi_amount = totalAmount,
            pi_type = (if types \<noteq> [] then join_types types else ''none''),
            pi_strategy = strategy\<rparr>)"

text \<open>
  \<open>calculateOriginalLoan\<close>: the loan without prepayments, capped at twice the base
  tenure. The loop state is (month, balance, totalInterest).
\<close>

function original_loop ::
  "LoanConfiguration \<Rightarrow> real \<Rightarrow> int \<Rightarrow> real \<Rightarrow> real \<Rightarrow> int \<times> real" where
  "original_loop cfg emi month balance totalInterest =
     (if balance > 0.01 \<and> month < baseTenureMonths cfg * 2 then
        let month' = month + 1;
            currentRate = getInterestRateForMonth (interestRateSchedule cfg) month';
            monthlyRate = currentRate / 100 / 12;
            interest = balance * monthlyRate;
            principal0 = min (emi - interest) balance;
            principal1 = (if principal0 < 0 then 0 else principal0);
            totalInterest' = totalInterest + interest;
            balance' = balance - principal1
        in if balance' \<le> 0.01 then (month', totalInterest')
           else original_loop cfg emi month' balance' totalInterest'
      else (month, totalInterest))"
  by pat_completeness auto
termination
  by (relation "measure (\<lambda>(cfg, emi, month, balance, totalInterest).
                  nat (baseTenureMonths cfg * 2 - month))") auto

definition calculateOriginalLoan :: "LoanConfiguration \<Rightarrow> (int \<times> real) option" where
  "calculateOriginalLoan cfg =
     (case calculateInitialEMI cfg of
        None \<Rightarrow> None
      | Some emi \<Rightarrow> Some (original_loop cfg emi 0 (principal cfg) 0))"


text \<open>
  The state of the main loop of \<open>calculate\<close> besides the month counter:
  \<open>balance\<close>, \<open>this.currentEMI\<close>, the two running totals and
  \<open>this.amortizationSchedule\<close>.
\<close>

record CalcState =
  cs_balance :: real
  cs_currentEMI :: real
  cs_totalInterestPaid :: real
  cs_totalPrincipalPaid :: real
  cs_schedule :: "AmortizationRow list"

text \<open>
  The end of the loop body: the final adjustment of \<open>principal\<close>, the totals, the new
  balance and the pushed row.
\<close>

definition record_month ::
  "CalcState \<Rightarrow> int \<Rightarrow> real \<Rightarrow> real \<Rightarrow> real \<Rightarrow> real \<Rightarrow> real \<Rightarrow> PrepaymentInfo \<Rightarrow> strategy
     \<Rightarrow> CalcState" where
  "record_month s month currentRate interest principal' currentEMI' totalPrepayment
       prepaymentInfo strategy' =
     (let principal'' = (if principal' > cs_balance s then cs_balance s else principal');
          balance' = cs_balance s - principal''
      in \<lparr>cs_balance = balance',
          cs_currentEMI = currentEMI',
          cs_totalInterestPaid = cs_totalInterestPaid s + interest,
          cs_totalPrincipalPaid = cs_totalPrincipalPaid s + principal'',
          cs_schedule = cs_schedule s @
            [\<lparr>row_month = month,
              row_balance = max balance' 0,
              row_interest = interest,
              row_principal = principal'',
              row_emi = currentEMI',
              row_prepayment = totalPrepayment,
              row_prepaymentType = pi_type prepaymentInfo,
              row_rate = currentRate,
              row_strategy = (if totalPrepayment > 0 then Some strategy' else None)\<rparr>]\<rparr>)"

text \<open>
  One pass through the loop body for the (already incremented) month. Where the
  re-estimate of the payment under \<open>REDUCE_EMI\<close> is not a finite number the pass ends in
  \<open>NonFiniteArithmetic\<close>; the code stores the NaN in \<open>this.currentEMI\<close> and carries on.
\<close>

definition calc_iteration :: "LoanConfiguration \<Rightarrow> int \<Rightarrow> CalcState \<Rightarrow> calc_error + CalcState" where
  "calc_iteration cfg month s =
     (let balance = cs_balance s;
          currentRate = getInterestRateForMonth (interestRateSchedule cfg) month;
          monthlyRate = currentRate / 100 / 12;
          interest = balance * monthlyRate;
          principal0 = min (cs_currentEMI s - interest) balance;
          principal1 = (if principal0 < 0 then 0 else principal0);
          prepaymentInfo = getPrepaymentForMonth cfg month;
          strategy' = (case pi_strategy prepaymentInfo of
                         Some st \<Rightarrow> st | None \<Rightarrow> defaultStrategy cfg)
      in if pi_amount prepaymentInfo > 0 then
           let totalPrepayment = min (pi_amount prepaymentInfo) (balance - principal1);
               principal2 = principal1 + totalPrepayment
           in if strategy' = REDUCE_EMI then
                let newBalance = balance - principal2
                in if newBalance > 0.01 then
                     (case estimateRemainingMonths (baseTenureMonths cfg) (cs_currentEMI s)
                             newBalance currentRate of
                        None \<Rightarrow> Inl NonFiniteArithmetic
                      | Some remainingMonths \<Rightarrow>
                          (case calculateEMI newBalance currentRate remainingMonths of
                             None \<Rightarrow> Inl NonFiniteArithmetic
                           | Some emi \<Rightarrow>
                               let minEMI = newBalance * monthlyRate * 1.01;
                                   emi' = (if emi < minEMI then minEMI else emi)
                               in Inr (record_month s month currentRate interest principal2
                                         emi' totalPrepayment prepaymentInfo strategy')))
                   else Inr (record_month s month currentRate interest principal2
                               0 totalPrepayment prepaymentInfo strategy')
              else Inr (record_month s month currentRate interest principal2
                          (cs_currentEMI s) totalPrepayment prepaymentInfo strategy')
         else Inr (record_month s month currentRate interest principal1
                     (cs_currentEMI s) (pi_amount prepaymentInfo) prepaymentInfo strategy'))"

text \<open>
  The \<open>while\<close> loop, capped at three times the base tenure; it returns the final month
  counter with the state. The \<open>break\<close> sets the balance to 0.
\<close>

function calc_loop ::
  "LoanConfiguration \<Rightarrow> int \<Rightarrow> CalcState \<Rightarrow> calc_error + (int \<times> CalcState)" where
  "calc_loop cfg month s =
     (if cs_balance s > 0.01 \<and> month < baseTenureMonths cfg * 3 then
        (case calc_iteration cfg (month + 1) s of
           Inl e \<Rightarrow> Inl e
         | Inr s' \<Rightarrow>
             if cs_balance s' \<le> 0.01 then Inr (month + 1, s'\<lparr>cs_balance := 0\<rparr>)
             else calc_loop cfg (month + 1) s')
      else Inr (month, s))"
  by pat_completeness auto
termination
  by (relation "measure (\<lambda>(cfg, month, s). nat (baseTenureMonths cfg * 3 - month))") auto

definition calculateAverageRate :: "LoanConfiguration \<Rightarrow> AmortizationRow list \<Rightarrow> real" where
  "calculateAverageRate cfg schedule =
     (if schedule = [] then
        (case interestRateSchedule cfg of [] \<Rightarrow> 0
         | p # _ \<Rightarrow> (if irp_rate p = 0 then 0 else irp_rate p))
      else let totalRate = foldl (\<lambda>acc row. acc + row_rate row) 0 schedule;
               count = length schedule
           in if count > 0 then totalRate / real count else 0)"

record LoanResult =
  success :: bool
  months :: int
  totalInterest :: real
  totalPrincipal :: real
  totalPayment :: real
  interestSaved :: real
  tenureReduced :: int
  originalEMI :: real
  finalEMI :: real
  originalMonths :: int
  originalTotalInterest :: real
  amortizationSchedule :: "AmortizationRow list"
  averageRate :: real

definition calculate :: "LoanConfiguration \<Rightarrow> calc_error + LoanResult" where
  "calculate cfg =
     (if validate cfg \<noteq> [] then Inl (InvalidConfiguration (validate cfg))
      else case calculateInitialEMI cfg of
        None \<Rightarrow> Inl NonFiniteArithmetic
      | Some emi0 \<Rightarrow>
         (case calculateOriginalLoan cfg of
            None \<Rightarrow> Inl NonFiniteArithmetic
          | Some (originalMonths', originalTotalInterest') \<Rightarrow>
             (case calc_loop cfg 0
                     \<lparr>cs_balance = principal cfg, cs_currentEMI = emi0,
                      cs_totalInterestPaid = 0, cs_totalPrincipalPaid = 0,
                      cs_schedule = []\<rparr> of
                Inl e \<Rightarrow> Inl e
              | Inr (month, s) \<Rightarrow>
                  Inr \<lparr>success = True,
                       months = month,
                       totalInterest = cs_totalInterestPaid s,
                       totalPrincipal = cs_totalPrincipalPaid s,
                       totalPayment = cs_totalPrincipalPaid s + cs_totalInterestPaid s,
                       interestSaved = max (originalTotalInterest' - cs_totalInterestPaid s) 0,
                       tenureReduced = originalMonths' - month,
                       originalEMI = emi0,
                       finalEMI = cs_currentEMI s,
                       originalMonths = originalMonths',
                       originalTotalInterest = originalTotalInterest',
                       amortizationSchedule = cs_schedule s,
                       averageRate = calculateAverageRate cfg (cs_schedule s)\<rparr>)))"


section \<open>Goal-seeking SIP calculator (js/core/GoalSeeker.js)\<close>

text \<open>Durations in years are whole numbers, so that \<open>Math.pow\<close> is the power \<open>^\<close>.\<close>

definition maxIterations :: nat where
  "maxIterations = 100"

definition tolerance :: real where
  "tolerance = 100"

definition calculateFutureValue :: "real \<Rightarrow> nat \<Rightarrow> real \<Rightarrow> real" where
  "calculateFutureValue monthlySIP years annualReturn =
     (let months = years * 12;
          r = annualReturn / 100 / 12
      in if r = 0 then monthlySIP * real months
         else monthlySIP * (((1 + r) ^ months - 1) / r) * (1 + r))"

text \<open>
  \<open>binarySearchMethod\<close>: the loop state is (low, high, iterations); a \<open>return mid\<close>
  inside the loop ends it.
\<close>

function bisect_loop :: "real \<Rightarrow> nat \<Rightarrow> real \<Rightarrow> real \<Rightarrow> real \<Rightarrow> nat \<Rightarrow> real" where
  "bisect_loop targetAmount years annualReturn low high iterations =
     (if iterations < maxIterations \<and> high - low > 1 then
        let mid = (low + high) / 2;
            fv = calculateFutureValue mid years annualReturn
        in if \<bar>fv - targetAmount\<bar> < tolerance then mid
           else if fv < targetAmount
                then bisect_loop targetAmount years annualReturn mid high (iterations + 1)
                else bisect_loop targetAmount years annualReturn low mid (iterations + 1)
      else (low + high) / 2)"
  by pat_completeness auto
termination
  by (relation "measure (\<lambda>(targetAmount, years, annualReturn, low, high, iterations).
                  maxIterations - iterations)") auto

definition binarySearchMethod :: "real \<Rightarrow> nat \<Rightarrow> real \<Rightarrow> real" where
  "binarySearchMethod targetAmount years annualReturn =
     bisect_loop targetAmount years annualReturn 100 (targetAmount / 12) 0"

text \<open>
  The \<open>while\<close> loop of \<open>newtonRaphsonMethod\<close> either returns the converged guess or is
  left (by \<open>break\<close> or by its condition) with the current guess and iteration count.
\<close>

datatype newton_exit = Returned real | LeftLoop real nat

function newton_loop :: "real \<Rightarrow> nat \<Rightarrow> real \<Rightarrow> real \<Rightarrow> nat \<Rightarrow> newton_exit" where
  "newton_loop targetAmount years annualReturn sip iterations =
     (if iterations < maxIterations then
        let fv = calculateFutureValue sip years annualReturn;
            error = fv - targetAmount
        in if \<bar>error\<bar> < tolerance then Returned sip
           else
             let delta = 1;
                 fvPlusDelta = calculateFutureValue (sip + delta) years annualReturn;
                 derivative = (fvPlusDelta - fv) / delta
             in if \<bar>derivative\<bar> < 0.001 then LeftLoop sip iterations
                else
                  let sip' = sip - (error / derivative);
                      sip'' = (if sip' < 100 then 100 else sip')
                  in newton_loop targetAmount years annualReturn sip'' (iterations + 1)
      else LeftLoop sip iterations)"
  by pat_completeness auto
termination
  by (relation "measure (\<lambda>(targetAmount, years, annualReturn, sip, iterations).
                  maxIterations - iterations)") auto

text \<open>
  \<open>newtonRaphsonMethod\<close>. The initial guess divides by \<open>years * 12\<close>; with zero years
  it is not a finite number (\<open>None\<close>).
\<close>

definition newtonRaphsonMethod :: "real \<Rightarrow> nat \<Rightarrow> real \<Rightarrow> real option" where
  "newtonRaphsonMethod targetAmount years annualReturn =
     (if years * 12 = 0 then None
      else case newton_loop targetAmount years annualReturn
                  (targetAmount / real (years * 12)) 0 of
             Returned sip \<Rightarrow> Some sip
           | LeftLoop sip iterations \<Rightarrow>
               if iterations \<ge> maxIterations
               then Some (binarySearchMethod targetAmount years annualReturn)
               else Some sip)"

text \<open>The step-up variant: a year of twelve monthly compounding steps, year by year.\<close>

fun compound_months :: "nat \<Rightarrow> real \<Rightarrow> real \<Rightarrow> real \<Rightarrow> real" where
  "compound_months 0 totalAmount currentSIP monthlyReturn = totalAmount"
| "compound_months (Suc k) totalAmount currentSIP monthlyReturn =
     compound_months k ((totalAmount + currentSIP) * (1 + monthlyReturn)) currentSIP monthlyReturn"

function stepup_fv_loop :: "nat \<Rightarrow> real \<Rightarrow> real \<Rightarrow> nat \<Rightarrow> real \<Rightarrow> real \<Rightarrow> real" where
  "stepup_fv_loop years monthlyReturn stepUpPercent year totalAmount currentSIP =
     (if year \<le> years then
        let totalAmount' = compound_months 12 totalAmount currentSIP monthlyReturn;
            currentSIP' = (if year < years then currentSIP * (1 + stepUpPercent / 100)
                           else currentSIP)
        in stepup_fv_loop years monthlyReturn stepUpPercent (year + 1) totalAmount' currentSIP'
      else totalAmount)"
  by pat_completeness auto
termination
  by (relation "measure (\<lambda>(years, monthlyReturn, stepUpPercent, year, totalAmount, currentSIP).
                  Suc years - year)") auto

definition calculateStepUpFutureValue :: "real \<Rightarrow> nat \<Rightarrow> real \<Rightarrow> real \<Rightarrow> real" where
  "calculateStepUpFutureValue initialSIP years annualReturn stepUpPercent =
     stepup_fv_loop years (annualReturn / 100 / 12) stepUpPercent 1 0 initialSIP"

function stepup_bisect_loop ::
  "real \<Rightarrow> nat \<Rightarrow> real \<Rightarrow> real \<Rightarrow> real \<Rightarrow> real \<Rightarrow> nat \<Rightarrow> real" where
  "stepup_bisect_loop targetAmount years annualReturn stepUpPercent low high iterations =
     (if iterations < maxIterations \<and> high - low > 1 then
        let mid = (low + high) / 2;
            fv = calculateStepUpFutureValue mid years annualReturn stepUpPercent
        in if \<bar>fv - targetAmount\<bar> < tolerance then mid
           else if fv < targetAmount
                then stepup_bisect_loop targetAmount years annualReturn stepUpPercent
                       mid high (iterations + 1)
                else stepup_bisect_loop targetAmount years annualReturn stepUpPercent
                       low mid (iterations + 1)
      else (low + high) / 2)"
  by pat_completeness auto
termination
  by (relation "measure (\<lambda>(targetAmount, years, annualReturn, stepUpPercent, low, high,
                  iterations). maxIterations - iterations)") auto

definition calculateStepUpSIP :: "real \<Rightarrow> nat \<Rightarrow> real \<Rightarrow> real \<Rightarrow> real" where
  "calculateStepUpSIP targetAmount years annualReturn stepUpPercent =
     stepup_bisect_loop targetAmount years annualReturn stepUpPercent 100 (targetAmount / 12) 0"

function stepup_investment_loop :: "nat \<Rightarrow> real \<Rightarrow> nat \<Rightarrow> real \<Rightarrow> real \<Rightarrow> real" where
  "stepup_investment_loop years stepUpPercent year totalInvestment currentSIP =
     (if year \<le> years then
        let totalInvestment' = totalInvestment + currentSIP * 12;
            currentSIP' = (if year < years then currentSIP * (1 + stepUpPercent / 100)
                           else currentSIP)
        in stepup_investment_loop years stepUpPercent (year + 1) totalInvestment' currentSIP'
      else totalInvestment)"
  by pat_completeness auto
termination
  by (relation "measure (\<lambda>(years, stepUpPercent, year, totalInvestment, currentSIP).
                  Suc years - year)") auto

definition calculateStepUpTotalInvestment :: "real \<Rightarrow> nat \<Rightarrow> real \<Rightarrow> real" where
  "calculateStepUpTotalInvestment initialSIP years stepUpPercent =
     stepup_investment_loop years stepUpPercent 1 0 initialSIP"

record GoalResult =
  gr_success :: bool
  gr_requiredSIP :: real
  gr_targetAmount :: real
  gr_inflationAdjustedTarget :: real
  gr_achievedAmount :: real
  gr_totalInvestment :: real
  gr_wealthGain :: real
  gr_realValue :: real
  gr_years :: nat
  gr_annualReturn :: real
  gr_inflationRate :: real
  gr_stepUpPercent :: real

definition calculateRequiredSIP ::
  "real \<Rightarrow> nat \<Rightarrow> real \<Rightarrow> real \<Rightarrow> real \<Rightarrow> GoalResult option" where
  "calculateRequiredSIP targetAmount years annualReturn inflationRate stepUpPercent =
     (let inflationAdjustedTarget =
            (if inflationRate > 0 then targetAmount * (1 + inflationRate / 100) ^ years
             else targetAmount);
          requiredSIP' =
            (if stepUpPercent > 0
             then Some (calculateStepUpSIP inflationAdjustedTarget years annualReturn stepUpPercent)
             else newtonRaphsonMethod inflationAdjustedTarget years annualReturn)
      in case requiredSIP' of
           None \<Rightarrow> None
         | Some requiredSIP \<Rightarrow>
             let achievedAmount =
                   (if stepUpPercent > 0
                    then calculateStepUpFutureValue requiredSIP years annualReturn stepUpPercent
                    else calculateFutureValue requiredSIP years annualReturn);
                 totalInvestment =
                   (if stepUpPercent > 0
                    then calculateStepUpTotalInvestment requiredSIP years stepUpPercent
                    else requiredSIP * real years * 12);
                 realValue =
                   (if inflationRate > 0
                    then achievedAmount / (1 + inflationRate / 100) ^ years
                    else achievedAmount)
             in Some \<lparr>gr_success = True,
                      gr_requiredSIP = real_of_int \<lceil>requiredSIP / 100\<rceil> * 100,
                      gr_targetAmount = targetAmount,
                      gr_inflationAdjustedTarget = inflationAdjustedTarget,
                      gr_achievedAmount = achievedAmount,
                      gr_totalInvestment = totalInvestment,
                      gr_wealthGain = achievedAmount - totalInvestment,
                      gr_realValue = realValue,
                      gr_years = years,
                      gr_annualReturn = annualReturn,
                      gr_inflationRate = inflationRate,
                      gr_stepUpPercent = stepUpPercent\<rparr>)"


section \<open>SIP data model and forward calculator (js/core/DataModels.js, js/core/SIPCalculator.js)\<close>

record ReturnPeriod =
  rp_startYear :: int
  rp_endYear :: "int option"
  rp_annualReturn :: real

definition rp_isActiveForYear :: "ReturnPeriod \<Rightarrow> int \<Rightarrow> bool" where
  "rp_isActiveForYear p year \<longleftrightarrow>
     year \<ge> rp_startYear p \<and>
     (case rp_endYear p of None \<Rightarrow> True | Some e \<Rightarrow> year \<le> e)"

record ReturnScenario =
  rs_name :: string
  rs_periods :: "ReturnPeriod list"

definition addPeriod :: "ReturnScenario \<Rightarrow> int \<Rightarrow> int option \<Rightarrow> real \<Rightarrow> ReturnScenario" where
  "addPeriod sc startYear endYear annualReturn =
     sc\<lparr>rs_periods := sort_key rp_startYear
          (rs_periods sc @
           [\<lparr>rp_startYear = startYear, rp_endYear = endYear, rp_annualReturn = annualReturn\<rparr>])\<rparr>"

text \<open>\<open>getReturnForYear\<close>: the first active period; else \<open>periods[0]?.annualReturn || 0\<close>.\<close>

fun first_active_return :: "ReturnPeriod list \<Rightarrow> int \<Rightarrow> real option" where
  "first_active_return [] year = None"
| "first_active_return (p # ps) year =
     (if rp_isActiveForYear p year then Some (rp_annualReturn p)
      else first_active_return ps year)"

definition getReturnForYear :: "ReturnScenario \<Rightarrow> int \<Rightarrow> real" where
  "getReturnForYear sc year =
     (case first_active_return (rs_periods sc) year of
        Some r \<Rightarrow> r
      | None \<Rightarrow> (case rs_periods sc of [] \<Rightarrow> 0
                 | p # _ \<Rightarrow> (if rp_annualReturn p = 0 then 0 else rp_annualReturn p)))"

record StepUpSchedule =
  su_startYear :: int
  su_endYear :: "int option"
  su_stepUpPercent :: real

record WithdrawalPlan =
  wp_startMonth :: int
  wp_monthlyWithdrawal :: real
  wp_inflationAdjusted :: bool

record SIPConfiguration =
  monthlyAmount :: real
  durationYears :: nat
  stepUpSchedules :: "StepUpSchedule list"
  returnScenarios :: "string \<rightharpoonup> ReturnScenario"
  withdrawalPlan :: "WithdrawalPlan option"
  inflationRate :: real

text \<open>\<open>applySteUpSchedule\<close>: the first schedule whose years contain the year applies.\<close>

fun applySteUpSchedule :: "StepUpSchedule list \<Rightarrow> real \<Rightarrow> int \<Rightarrow> real" where
  "applySteUpSchedule [] currentSIP year = currentSIP"
| "applySteUpSchedule (schedule # rest) currentSIP year =
     (if year \<ge> su_startYear schedule \<and>
         (case su_endYear schedule of None \<Rightarrow> True | Some e \<Rightarrow> year \<le> e)
      then currentSIP * (1 + su_stepUpPercent schedule / 100)
      else applySteUpSchedule rest currentSIP year)"

text \<open>
  \<open>calculateEffectiveReturn\<close>: \<open>Math.pow\<close> with the exponent \<open>1 / years\<close>; a negative base
  gives NaN (\<open>None\<close>) unless the exponent is 1.
\<close>

definition calculateEffectiveReturn :: "real \<Rightarrow> real \<Rightarrow> nat \<Rightarrow> real option" where
  "calculateEffectiveReturn invested finalValue' years =
     (if invested \<le> 0 \<or> years \<le> 0 then Some 0
      else if years = 1 then Some ((finalValue' / invested - 1) * 100)
      else if finalValue' / invested < 0 then None
      else Some (((finalValue' / invested) powr (1 / real years) - 1) * 100))"

record SIPRow =
  sr_month :: nat
  sr_year :: int
  sr_sipAmount :: real
  sr_balance :: real
  sr_inflationAdjusted :: real
  sr_totalInvested :: real
  sr_returnRate :: real

record SIPState =
  ss_balance :: real
  ss_totalInvested :: real
  ss_currentSIP :: real
  ss_schedule :: "SIPRow list"

text \<open>The \<open>for\<close> loop of \<open>AdvancedSIPCalculator.calculate\<close>, from \<open>month\<close> up to \<open>months\<close>.\<close>

function sip_loop :: "SIPConfiguration \<Rightarrow> ReturnScenario \<Rightarrow> nat \<Rightarrow> nat \<Rightarrow> SIPState \<Rightarrow> SIPState" where
  "sip_loop cfg scenario months' month s =
     (if month \<le> months' then
        let year = \<lceil>real month / 12\<rceil>;
            currentSIP = (if month > 1 \<and> (month - 1) mod 12 = 0
                          then applySteUpSchedule (stepUpSchedules cfg) (ss_currentSIP s) year
                          else ss_currentSIP s);
            returnRate = getReturnForYear scenario year;
            monthlyReturn = returnRate / 100 / 12;
            totalInvested' = ss_totalInvested s + currentSIP;
            balance = (ss_balance s + currentSIP) * (1 + monthlyReturn);
            inflationAdjusted =
              (if inflationRate cfg > 0
               then balance / (1 + inflationRate cfg / 100 / 12) ^ month
               else balance);
            schedule =
              (if month mod 6 = 0 \<or> month = 1 \<or> month = months'
               then ss_schedule s @
                      [\<lparr>sr_month = month, sr_year = year, sr_sipAmount = currentSIP,
                        sr_balance = balance, sr_inflationAdjusted = inflationAdjusted,
                        sr_totalInvested = totalInvested', sr_returnRate = returnRate\<rparr>]
               else ss_schedule s)
        in sip_loop cfg scenario months' (month + 1)
             \<lparr>ss_balance = balance, ss_totalInvested = totalInvested',
              ss_currentSIP = currentSIP, ss_schedule = schedule\<rparr>
      else s)"
  by pat_completeness auto
termination
  by (relation "measure (\<lambda>(cfg, scenario, months', month, s). Suc months' - month)") auto

datatype sip_error = ScenarioNotFound string

record SIPResult =
  sip_success :: bool
  finalValue :: real
  totalInvested :: real
  wealthGain :: real
  realValue :: real
  effectiveReturn :: "real option"
  schedule :: "SIPRow list"

definition sip_calculate :: "SIPConfiguration \<Rightarrow> string \<Rightarrow> sip_error + SIPResult" where
  "sip_calculate cfg scenarioName =
     (case returnScenarios cfg scenarioName of
        None \<Rightarrow> Inl (ScenarioNotFound scenarioName)
      | Some scenario \<Rightarrow>
          let months' = durationYears cfg * 12;
              s = sip_loop cfg scenario months' 1
                    \<lparr>ss_balance = 0, ss_totalInvested = 0,
                     ss_currentSIP = monthlyAmount cfg, ss_schedule = []\<rparr>;
              balance = ss_balance s
          in Inr \<lparr>sip_success = True,
                  finalValue = balance,
                  totalInvested = ss_totalInvested s,
                  wealthGain = balance - ss_totalInvested s,
                  realValue = (if inflationRate cfg > 0
                               then balance / (1 + inflationRate cfg / 100) ^ durationYears cfg
                               else balance),
                  effectiveReturn =
                    calculateEffectiveReturn (ss_totalInvested s) balance (durationYears cfg),
                  schedule = ss_schedule s\<rparr>)"

section \<open>Withdrawal calculator (js/core/SIPCalculator.js)\<close>

record WithdrawalRow =
  wr_month :: nat
  wr_year :: int
  wr_balance :: real
  wr_withdrawal :: real
  wr_totalWithdrawn :: real

record WithdrawalState =
  ws_balance :: real
  ws_totalWithdrawn :: real
  ws_currentWithdrawal :: real
  ws_schedule :: "WithdrawalRow list"
  ws_depletedAt :: "nat option"

text \<open>
  The \<open>for\<close> loop of \<open>WithdrawalCalculator.calculate\<close>; both \<open>break\<close>s record the month
  in \<open>depletedAt\<close>.
\<close>

function withdrawal_loop ::
  "nat \<Rightarrow> real \<Rightarrow> real \<Rightarrow> bool \<Rightarrow> nat \<Rightarrow> WithdrawalState \<Rightarrow> WithdrawalState" where
  "withdrawal_loop months' monthlyReturn inflationRate' inflationAdjusted month s =
     (if month \<le> months' then
        let year = \<lceil>real month / 12\<rceil>;
            currentWithdrawal =
              (if inflationAdjusted \<and> month > 1 \<and> (month - 1) mod 12 = 0
               then ws_currentWithdrawal s * (1 + inflationRate' / 100)
               else ws_currentWithdrawal s)
        in if ws_balance s < currentWithdrawal
           then s\<lparr>ws_currentWithdrawal := currentWithdrawal, ws_depletedAt := Some month\<rparr>
           else
             let balance1 = ws_balance s - currentWithdrawal;
                 totalWithdrawn = ws_totalWithdrawn s + currentWithdrawal;
                 balance2 = (if balance1 > 0 then balance1 * (1 + monthlyReturn) else balance1);
                 schedule =
                   (if month mod 6 = 0 \<or> month = 1 \<or> balance2 \<le> 0
                    then ws_schedule s @
                           [\<lparr>wr_month = month, wr_year = year, wr_balance = max balance2 0,
                             wr_withdrawal = currentWithdrawal,
                             wr_totalWithdrawn = totalWithdrawn\<rparr>]
                    else ws_schedule s);
                 s' = \<lparr>ws_balance = balance2, ws_totalWithdrawn = totalWithdrawn,
                       ws_currentWithdrawal = currentWithdrawal, ws_schedule = schedule,
                       ws_depletedAt = ws_depletedAt s\<rparr>
             in if balance2 \<le> 0 then s'\<lparr>ws_depletedAt := Some month\<rparr>
                else withdrawal_loop months' monthlyReturn inflationRate' inflationAdjusted
                       (month + 1) s'
      else s)"
  by pat_completeness auto
termination
  by (relation "measure (\<lambda>(months', monthlyReturn, inflationRate', inflationAdjusted, month, s).
                  Suc months' - month)") (simp_all add: Suc_diff_le)

record WithdrawalResult =
  wd_success :: bool
  wd_initialCorpus :: real
  wd_monthlyWithdrawal :: real
  wd_totalWithdrawn :: real
  wd_remainingCorpus :: real
  wd_depletedAt :: "nat option"
  wd_depletedInYears :: "real option"
  wd_lastsThroughPlan :: bool
  wd_schedule :: "WithdrawalRow list"

definition withdrawal_calculate ::
  "real \<Rightarrow> real \<Rightarrow> nat \<Rightarrow> real \<Rightarrow> real \<Rightarrow> bool \<Rightarrow> WithdrawalResult" where
  "withdrawal_calculate initialCorpus monthlyWithdrawal years annualReturn inflationRate'
       inflationAdjusted =
     (let months' = years * 12;
          monthlyReturn = annualReturn / 100 / 12;
          s = withdrawal_loop months' monthlyReturn inflationRate' inflationAdjusted 1
                \<lparr>ws_balance = initialCorpus, ws_totalWithdrawn = 0,
                 ws_currentWithdrawal = monthlyWithdrawal, ws_schedule = [],
                 ws_depletedAt = None\<rparr>
      in \<lparr>wd_success = True,
          wd_initialCorpus = initialCorpus,
          wd_monthlyWithdrawal = monthlyWithdrawal,
          wd_totalWithdrawn = ws_totalWithdrawn s,
          wd_remainingCorpus = max (ws_balance s) 0,
          wd_depletedAt = ws_depletedAt s,
          wd_depletedInYears =
            (case ws_depletedAt s of
               Some d \<Rightarrow> (if d \<noteq> 0 then Some (real d / 12) else None)
             | None \<Rightarrow> None),
          wd_lastsThroughPlan = (ws_depletedAt s = None),
          wd_schedule = ws_schedule s\<rparr>)"

section \<open>EMI calculator (v2/js/core/EMICalculator.js)\<close>

text \<open>\<open>roundCurrency\<close>: \<open>Math.round(val * 100) / 100\<close>; \<open>Math.round\<close> rounds a half up.\<close>

definition roundCurrency :: "real \<Rightarrow> real" where
  "roundCurrency val = real_of_int \<lfloor>val * 100 + 1 / 2\<rfloor> / 100"

text \<open>
  \<open>_emi\<close>: the internal EMI formula with the 0% guard. Both quotients can have a zero
  divisor (\<open>months = 0\<close>, or \<open>factor = 1\<close>) and \<open>Math.pow\<close> of zero to a negative
  exponent is infinite; those cases are \<open>None\<close>.
\<close>

definition EMICalculator_emi :: "real \<Rightarrow> real \<Rightarrow> int \<Rightarrow> real option" where
  "EMICalculator_emi principal' annualRate months' =
     (if annualRate = 0 then
        (if months' = 0 then None else Some (principal' / real_of_int months'))
      else let r = annualRate / 100 / 12;
               factor = (1 + r) powi months'
           in if 1 + r = 0 \<and> months' < 0 then None
              else if factor - 1 = 0 then None
              else Some ((principal' * r * factor) / (factor - 1)))"





section \<open>Advanced loan calculator, second version (unnamed/part_002)\<close>

text \<open>
  The second version of the calculator carries its own copies of the data model, of
  \<open>validate\<close>, of the prepayment resolution (\<open>_getPrepaymentForMonth\<close>), of the baseline
  simulation (\<open>_simulateOriginal\<close>) and of the average rate; they are those of the first
  version statement by statement, and the definitions above stand for them. The main
  loop differs: the re-estimate of the remaining months is guarded, the capped
  prepayment is clamped, the prepayments made are totalled, and the rows and the totals
  are rounded to the cent when they are emitted. \<open>calculate\<close> empties the ledger before
  the loop; the first version does not, and is modelled as called once on a new
  calculator.
\<close>

text \<open>\<open>_emi\<close>: the zero-rate test is on the annual rate; otherwise \<open>calculateEMI\<close>.\<close>

definition v2_emi :: "real \<Rightarrow> real \<Rightarrow> int \<Rightarrow> real option" where
  "v2_emi principal' annualRate months' =
     (if principal' \<le> 0 \<or> months' \<le> 0 then Some 0
      else if annualRate = 0 then Some (principal' / real_of_int months')
      else let r = annualRate / 100 / 12;
               factor = (1 + r) ^ nat months'
           in if factor - 1 = 0 then None
              else Some ((principal' * r * factor) / (factor - 1)))"

definition v2_calculateInitialEMI :: "LoanConfiguration \<Rightarrow> real option" where
  "v2_calculateInitialEMI cfg =
     (case interestRateSchedule cfg of
        [] \<Rightarrow> None
      | p # _ \<Rightarrow> v2_emi (principal cfg) (irp_rate p) (baseTenureMonths cfg))"

text \<open>
  \<open>_estimateRemainingMonths\<close>: as in the first version, behind the guard that returns
  the base tenure for a payment at or below the month's interest, so that the first
  logarithm has a positive argument. The logarithms and the ceiling are the exact ones.
\<close>

definition v2_estimateRemainingMonths :: "int \<Rightarrow> real \<Rightarrow> real \<Rightarrow> real \<Rightarrow> int option" where
  "v2_estimateRemainingMonths baseTenure currentEMI balance annualRate =
     (if balance \<le> 0 \<or> currentEMI \<le> 0 then Some 0
      else if annualRate = 0 then Some \<lceil>balance / currentEMI\<rceil>
      else let r = annualRate / 100 / 12 in
        if currentEMI \<le> balance * r then Some baseTenure
        else if 1 + r < 0 then None
        else if 1 + r = 0 then Some 1
        else
          let months = \<lceil>ln (currentEMI / (currentEMI - balance * r)) / ln (1 + r)\<rceil> in
          if months < 1 then Some 1
          else if months > baseTenure * 2 then Some (baseTenure * 2)
          else Some months)"

text \<open>The loop state; \<open>totalPrepaymentMade\<close> is new in this version.\<close>

record V2CalcState =
  v2s_balance :: real
  v2s_currentEMI :: real
  v2s_totalInterestPaid :: real
  v2s_totalPrincipalPaid :: real
  v2s_totalPrepaymentMade :: real
  v2s_schedule :: "AmortizationRow list"

text \<open>
  The end of the loop body. The balance is clamped at zero and the figures of the row
  are rounded to the cent; \<open>prepayment\<close> is the amount recorded in the row and \<open>made\<close> the
  amount added to \<open>totalPrepaymentMade\<close>.
\<close>

definition v2_record_month ::
  "V2CalcState \<Rightarrow> int \<Rightarrow> real \<Rightarrow> real \<Rightarrow> real \<Rightarrow> real \<Rightarrow> real \<Rightarrow> real \<Rightarrow> PrepaymentInfo
     \<Rightarrow> strategy \<Rightarrow> V2CalcState" where
  "v2_record_month s month currentRate interest principal' currentEMI' prepayment made
       prepInfo strategy' =
     (let principal'' = (if principal' > v2s_balance s then v2s_balance s else principal');
          balance1 = v2s_balance s - principal'';
          balance' = (if balance1 < 0 then 0 else balance1)
      in \<lparr>v2s_balance = balance',
          v2s_currentEMI = currentEMI',
          v2s_totalInterestPaid = v2s_totalInterestPaid s + interest,
          v2s_totalPrincipalPaid = v2s_totalPrincipalPaid s + principal'',
          v2s_totalPrepaymentMade = v2s_totalPrepaymentMade s + made,
          v2s_schedule = v2s_schedule s @
            [\<lparr>row_month = month,
              row_balance = roundCurrency (max balance' 0),
              row_interest = roundCurrency interest,
              row_principal = roundCurrency principal'',
              row_emi = roundCurrency currentEMI',
              row_prepayment = roundCurrency prepayment,
              row_prepaymentType = pi_type prepInfo,
              row_rate = currentRate,
              row_strategy = (if prepayment > 0 then Some strategy' else None)\<rparr>]\<rparr>)"

text \<open>
  One pass through the loop body. The cap and the clamp \<open>if (prepayment < 0) prepayment = 0\<close>
  are both inside \<open>if (prepayment > 0)\<close>.
\<close>

definition v2_calc_iteration ::
  "LoanConfiguration \<Rightarrow> int \<Rightarrow> V2CalcState \<Rightarrow> calc_error + V2CalcState" where
  "v2_calc_iteration cfg month s =
     (let balance = v2s_balance s;
          currentRate = getInterestRateForMonth (interestRateSchedule cfg) month;
          monthlyRate = currentRate / 100 / 12;
          interest = balance * monthlyRate;
          principal0 = min (v2s_currentEMI s - interest) balance;
          principal1 = (if principal0 < 0 then 0 else principal0);
          prepInfo = getPrepaymentForMonth cfg month;
          strategy' = (case pi_strategy prepInfo of
                         Some st \<Rightarrow> st | None \<Rightarrow> defaultStrategy cfg)
      in if pi_amount prepInfo > 0 then
           let prepayment0 = min (pi_amount prepInfo) (balance - principal1);
               prepayment = (if prepayment0 < 0 then 0 else prepayment0);
               principal2 = principal1 + prepayment
           in if strategy' = REDUCE_EMI then
                let newBalance = balance - principal2
                in if newBalance > 0.01 then
                     (case v2_estimateRemainingMonths (baseTenureMonths cfg) (v2s_currentEMI s)
                             newBalance currentRate of
                        None \<Rightarrow> Inl NonFiniteArithmetic
                      | Some remaining \<Rightarrow>
                          (case v2_emi newBalance currentRate remaining of
                             None \<Rightarrow> Inl NonFiniteArithmetic
                           | Some emi \<Rightarrow>
                               let minEMI = newBalance * monthlyRate * 1.01;
                                   emi' = (if emi < minEMI then minEMI else emi)
                               in Inr (v2_record_month s month currentRate interest principal2
                                         emi' prepayment prepayment prepInfo strategy')))
                   else Inr (v2_record_month s month currentRate interest principal2
                               0 prepayment prepayment prepInfo strategy')
              else Inr (v2_record_month s month currentRate interest principal2
                          (v2s_currentEMI s) prepayment prepayment prepInfo strategy')
         else Inr (v2_record_month s month currentRate interest principal1
                     (v2s_currentEMI s) (pi_amount prepInfo) 0 prepInfo strategy'))"

function v2_calc_loop ::
  "LoanConfiguration \<Rightarrow> int \<Rightarrow> V2CalcState \<Rightarrow> calc_error + (int \<times> V2CalcState)" where
  "v2_calc_loop cfg month s =
     (if v2s_balance s > 0.01 \<and> month < baseTenureMonths cfg * 3 then
        (case v2_calc_iteration cfg (month + 1) s of
           Inl e \<Rightarrow> Inl e
         | Inr s' \<Rightarrow>
             if v2s_balance s' \<le> 0.01 then Inr (month + 1, s'\<lparr>v2s_balance := 0\<rparr>)
             else v2_calc_loop cfg (month + 1) s')
      else Inr (month, s))"
  by pat_completeness auto
termination
  by (relation "measure (\<lambda>(cfg, month, s). nat (baseTenureMonths cfg * 3 - month))") auto

text \<open>The result of \<open>calculate\<close>; its totals are rounded to the cent.\<close>

record V2LoanResult =
  v2r_success :: bool
  v2r_months :: int
  v2r_totalInterest :: real
  v2r_totalPrincipal :: real
  v2r_totalPayment :: real
  v2r_totalPrepayment :: real
  v2r_interestSaved :: real
  v2r_tenureReduced :: int
  v2r_originalEMI :: real
  v2r_finalEMI :: real
  v2r_originalMonths :: int
  v2r_originalTotalInterest :: real
  v2r_amortizationSchedule :: "AmortizationRow list"
  v2r_averageRate :: real

definition v2_calculate :: "LoanConfiguration \<Rightarrow> calc_error + V2LoanResult" where
  "v2_calculate cfg =
     (if validate cfg \<noteq> [] then Inl (InvalidConfiguration (validate cfg))
      else case v2_calculateInitialEMI cfg of
        None \<Rightarrow> Inl NonFiniteArithmetic
      | Some emi0 \<Rightarrow>
         (case original_loop cfg emi0 0 (principal cfg) 0 of
            (originalMonths', originalTotalInterest') \<Rightarrow>
             (case v2_calc_loop cfg 0
                     \<lparr>v2s_balance = principal cfg, v2s_currentEMI = emi0,
                      v2s_totalInterestPaid = 0, v2s_totalPrincipalPaid = 0,
                      v2s_totalPrepaymentMade = 0, v2s_schedule = []\<rparr> of
                Inl e \<Rightarrow> Inl e
              | Inr (month, s) \<Rightarrow>
                  Inr \<lparr>v2r_success = True,
                       v2r_months = month,
                       v2r_totalInterest = roundCurrency (v2s_totalInterestPaid s),
                       v2r_totalPrincipal = roundCurrency (v2s_totalPrincipalPaid s),
                       v2r_totalPayment =
                         roundCurrency (v2s_totalPrincipalPaid s + v2s_totalInterestPaid s),
                       v2r_totalPrepayment = roundCurrency (v2s_totalPrepaymentMade s),
                       v2r_interestSaved =
                         roundCurrency (max (originalTotalInterest' - v2s_totalInterestPaid s) 0),
                       v2r_tenureReduced = originalMonths' - month,
                       v2r_originalEMI = roundCurrency emi0,
                       v2r_finalEMI = roundCurrency (v2s_currentEMI s),
                       v2r_originalMonths = originalMonths',
                       v2r_originalTotalInterest = roundCurrency originalTotalInterest',
                       v2r_amortizationSchedule = v2s_schedule s,
                       v2r_averageRate = calculateAverageRate cfg (v2s_schedule s)\<rparr>)))"

section \<open>Ledger properties\<close>

text \<open>
  The prepayment cap, read off the ledger: a row's prepayment is at most the balance
  before the row minus the scheduled principal of that month, which the loop computes
  from the balance and the payment before the row (those of the previous row, or the
  principal and the initial payment for the first row) and the row's rate.
\<close>

fun prepayment_capped :: "real \<Rightarrow> real \<Rightarrow> AmortizationRow list \<Rightarrow> bool" where
  "prepayment_capped balance emi [] = True"
| "prepayment_capped balance emi (row # rows) =
     (let interest = balance * (row_rate row / 100 / 12);
          principal0 = min (emi - interest) balance;
          scheduled = (if principal0 < 0 then 0 else principal0)
      in row_prepayment row \<le> balance - scheduled \<and>
         prepayment_capped (row_balance row) (row_emi row) rows)"

section \<open>Proof setup\<close>

text \<open>
  The loop equations are recursive under an \<open>if\<close>; they are unfolded by hand, one
  iteration at a time.
\<close>

declare original_loop.simps [simp del]
declare calc_loop.simps [simp del]
declare v2_calc_loop.simps [simp del]
declare bisect_loop.simps [simp del]
declare newton_loop.simps [simp del]
declare stepup_fv_loop.simps [simp del]
declare stepup_bisect_loop.simps [simp del]
declare stepup_investment_loop.simps [simp del]
declare sip_loop.simps [simp del]
declare withdrawal_loop.simps [simp del]

section \<open>Rate resolution\<close>

lemma rate_scan_last:
  "foldl (\<lambda>acc period. if irp_isActiveForMonth period m then Some (irp_rate period) else acc)
         a xs =
   (case filter (\<lambda>p. irp_isActiveForMonth p m) xs of
      [] \<Rightarrow> a
    | y # ys \<Rightarrow> Some (irp_rate (last (y # ys))))"
proof (induction xs rule: rev_induct)
  case Nil
  show ?case by simp
next
  case (snoc x xs)
  show ?case
    by (cases "filter (\<lambda>p. irp_isActiveForMonth p m) xs") (simp_all add: snoc.IH)
qed

lemma getInterestRateForMonth_eq:
  "getInterestRateForMonth sched m =
     (case filter (\<lambda>p. irp_isActiveForMonth p m) sched of
        [] \<Rightarrow> (case sched of [] \<Rightarrow> 0 | p # _ \<Rightarrow> irp_rate p)
      | y # ys \<Rightarrow> irp_rate (last (y # ys)))"
  unfolding getInterestRateForMonth_def Let_def rate_scan_last
  by (simp split: list.splits)

text \<open>
  Claim C1. Rate resolution is last-match-wins: \<open>getInterestRateForMonth\<close> returns the
  rate of the last schedule entry whose range contains the month (a null \<open>endMonth\<close>
  being open-ended); when no entry matches it returns the first entry's rate, and 0 for
  an empty schedule. For the schedule built by adding [1, null) at 5 and then [6, 12] at
  8, the rate is 8 at month 7 and 5 at months 1 and 13.
\<close>

theorem getInterestRateForMonth_last_match_wins:
  "getInterestRateForMonth sched m =
     (case filter (\<lambda>p. irp_isActiveForMonth p m) sched of
        [] \<Rightarrow> (case sched of [] \<Rightarrow> 0 | p # _ \<Rightarrow> irp_rate p)
      | y # ys \<Rightarrow> irp_rate (last (y # ys)))
   \<and> getInterestRateForMonth (addRatePeriod (addRatePeriod [] 1 5 None) 6 8 (Some 12)) 7 = 8
   \<and> getInterestRateForMonth (addRatePeriod (addRatePeriod [] 1 5 None) 6 8 (Some 12)) 1 = 5
   \<and> getInterestRateForMonth (addRatePeriod (addRatePeriod [] 1 5 None) 6 8 (Some 12)) 13 = 5"
proof -
  have sched: "addRatePeriod (addRatePeriod [] 1 5 None) 6 8 (Some 12) =
      [\<lparr>irp_startMonth = 1, irp_rate = 5, irp_endMonth = None\<rparr>,
       \<lparr>irp_startMonth = 6, irp_rate = 8, irp_endMonth = Some 12\<rparr>]"
    by (simp add: addRatePeriod_def)
  have "getInterestRateForMonth (addRatePeriod (addRatePeriod [] 1 5 None) 6 8 (Some 12)) 7 = 8"
    unfolding sched by (simp add: getInterestRateForMonth_def irp_isActiveForMonth_def)
  moreover
  have "getInterestRateForMonth (addRatePeriod (addRatePeriod [] 1 5 None) 6 8 (Some 12)) 1 = 5"
    unfolding sched by (simp add: getInterestRateForMonth_def irp_isActiveForMonth_def)
  moreover
  have "getInterestRateForMonth (addRatePeriod (addRatePeriod [] 1 5 None) 6 8 (Some 12)) 13 = 5"
    unfolding sched by (simp add: getInterestRateForMonth_def irp_isActiveForMonth_def)
  ultimately show ?thesis using getInterestRateForMonth_eq [of sched m] by simp
qed

section \<open>Prepayment resolution\<close>

lemma visit_scan_strategy:
  "snd (snd (foldl (\<lambda>acc p. visit_prepayment (act p) (amt p) lbl (str p) acc) acc0 xs)) =
     (case filter (\<lambda>p. act p \<and> str p \<noteq> None) xs of
        [] \<Rightarrow> snd (snd acc0)
      | y # ys \<Rightarrow> str (last (y # ys)))"
proof (induction xs rule: rev_induct)
  case Nil
  show ?case by simp
next
  case (snoc x xs)
  obtain a t s where acc: "foldl (\<lambda>acc p. visit_prepayment (act p) (amt p) lbl (str p) acc) acc0 xs
      = (a, t, s)"
    by (cases "foldl (\<lambda>acc p. visit_prepayment (act p) (amt p) lbl (str p) acc) acc0 xs") auto
  from snoc.IH acc have s: "s = (case filter (\<lambda>p. act p \<and> str p \<noteq> None) xs of
        [] \<Rightarrow> snd (snd acc0) | y # ys \<Rightarrow> str (last (y # ys)))"
    by simp
  have step: "foldl (\<lambda>acc p. visit_prepayment (act p) (amt p) lbl (str p) acc) acc0 (xs @ [x])
      = visit_prepayment (act x) (amt x) lbl (str x) (a, t, s)"
    by (simp add: acc)
  have "snd (snd (visit_prepayment (act x) (amt x) lbl (str x) (a, t, s))) =
      (if act x \<and> str x \<noteq> None then str x else s)"
    by (auto simp: visit_prepayment_def split: option.splits)
  then show ?case
    unfolding step s
    by (cases "filter (\<lambda>p. act p \<and> str p \<noteq> None) xs") auto
qed

text \<open>
  Claim C10. When several prepayment entries are active in a month and more than one
  carries a strategy override, \<open>getPrepaymentForMonth\<close> scans the monthly list, then the
  yearly list, then the one-time list, and keeps the last override met: the last active
  one-time entry with an override decides; if there is none, the last such yearly
  entry; if there is none either, the last such monthly entry. The order in which the
  entries of different kinds were added plays no part.
\<close>

theorem getPrepaymentForMonth_override_precedence:
  "pi_strategy (getPrepaymentForMonth cfg m) =
     (case filter (\<lambda>p. otp_isActiveForMonth p m \<and> otp_strategy p \<noteq> None)
             (oneTime (prepaymentStrategy cfg)) of
        y # ys \<Rightarrow> otp_strategy (last (y # ys))
      | [] \<Rightarrow>
         (case filter (\<lambda>p. yp_isActiveForMonth p m \<and> yp_strategy p \<noteq> None)
                 (yearly (prepaymentStrategy cfg)) of
            y # ys \<Rightarrow> yp_strategy (last (y # ys))
          | [] \<Rightarrow>
             (case filter (\<lambda>p. mp_isActiveForMonth p m \<and> mp_strategy p \<noteq> None)
                     (monthly (prepaymentStrategy cfg)) of
                y # ys \<Rightarrow> mp_strategy (last (y # ys))
              | [] \<Rightarrow> None)))"
proof -
  define acc1 where "acc1 = foldl (\<lambda>acc prep. visit_prepayment (mp_isActiveForMonth prep m)
      (mp_amount prep) ''monthly'' (mp_strategy prep) acc) (0, [], None)
      (monthly (prepaymentStrategy cfg))"
  define acc2 where "acc2 = foldl (\<lambda>acc prep. visit_prepayment (yp_isActiveForMonth prep m)
      (yp_amount prep) ''yearly'' (yp_strategy prep) acc) acc1 (yearly (prepaymentStrategy cfg))"
  define acc3 where "acc3 = foldl (\<lambda>acc prep. visit_prepayment (otp_isActiveForMonth prep m)
      (otp_amount prep) ''lump-sum'' (otp_strategy prep) acc) acc2 (oneTime (prepaymentStrategy cfg))"
  have res: "pi_strategy (getPrepaymentForMonth cfg m) = snd (snd acc3)"
    unfolding getPrepaymentForMonth_def Let_def acc3_def acc2_def acc1_def
    by (simp split: prod.splits)
  have s1: "snd (snd acc1) =
      (case filter (\<lambda>p. mp_isActiveForMonth p m \<and> mp_strategy p \<noteq> None)
              (monthly (prepaymentStrategy cfg)) of
         [] \<Rightarrow> None | y # ys \<Rightarrow> mp_strategy (last (y # ys)))"
    unfolding acc1_def visit_scan_strategy by (simp split: list.splits)
  have s2: "snd (snd acc2) =
      (case filter (\<lambda>p. yp_isActiveForMonth p m \<and> yp_strategy p \<noteq> None)
              (yearly (prepaymentStrategy cfg)) of
         [] \<Rightarrow> snd (snd acc1) | y # ys \<Rightarrow> yp_strategy (last (y # ys)))"
    unfolding acc2_def visit_scan_strategy by simp
  have s3: "snd (snd acc3) =
      (case filter (\<lambda>p. otp_isActiveForMonth p m \<and> otp_strategy p \<noteq> None)
              (oneTime (prepaymentStrategy cfg)) of
         [] \<Rightarrow> snd (snd acc2) | y # ys \<Rightarrow> otp_strategy (last (y # ys)))"
    unfolding acc3_def visit_scan_strategy by simp
  show ?thesis
    unfolding res s3 s2 s1 by (simp split: list.splits)
qed

section \<open>Withdrawal depletion\<close>

lemma withdrawal_loop_unfold:
  assumes "m \<le> M"
  shows "withdrawal_loop M mr ir adj m s =
     (let w = (if adj \<and> m > 1 \<and> (m - 1) mod 12 = 0
               then ws_currentWithdrawal s * (1 + ir / 100)
               else ws_currentWithdrawal s);
          b2 = (if ws_balance s - w > 0 then (ws_balance s - w) * (1 + mr) else ws_balance s - w)
      in if ws_balance s < w then s\<lparr>ws_currentWithdrawal := w, ws_depletedAt := Some m\<rparr>
         else if b2 \<le> 0 then
            \<lparr>ws_balance = b2, ws_totalWithdrawn = ws_totalWithdrawn s + w,
             ws_currentWithdrawal = w,
             ws_schedule = ws_schedule s @
               [\<lparr>wr_month = m, wr_year = \<lceil>real m / 12\<rceil>, wr_balance = max b2 0,
                 wr_withdrawal = w, wr_totalWithdrawn = ws_totalWithdrawn s + w\<rparr>],
             ws_depletedAt = Some m\<rparr>
         else withdrawal_loop M mr ir adj (m + 1)
                \<lparr>ws_balance = b2, ws_totalWithdrawn = ws_totalWithdrawn s + w,
                 ws_currentWithdrawal = w,
                 ws_schedule = (if m mod 6 = 0 \<or> m = 1
                    then ws_schedule s @
                      [\<lparr>wr_month = m, wr_year = \<lceil>real m / 12\<rceil>, wr_balance = max b2 0,
                        wr_withdrawal = w, wr_totalWithdrawn = ws_totalWithdrawn s + w\<rparr>]
                    else ws_schedule s),
                 ws_depletedAt = ws_depletedAt s\<rparr>)"
  apply (subst withdrawal_loop.simps)
  using assms apply (simp only: if_True Let_def)
  apply (auto simp: Let_def)
  done

lemma withdrawal_loop_step:
  assumes "m \<le> M"
    and w: "w = (if adj \<and> m > 1 \<and> (m - 1) mod 12 = 0
               then ws_currentWithdrawal s * (1 + ir / 100)
               else ws_currentWithdrawal s)"
    and b2: "b2 = (if ws_balance s - w > 0 then (ws_balance s - w) * (1 + mr)
                   else ws_balance s - w)"
  shows "ws_balance s < w \<or> b2 \<le> 0 \<Longrightarrow>
           ws_depletedAt (withdrawal_loop M mr ir adj m s) = Some m"
    and "\<not> (ws_balance s < w \<or> b2 \<le> 0) \<Longrightarrow>
           \<exists>s'. withdrawal_loop M mr ir adj m s = withdrawal_loop M mr ir adj (m + 1) s' \<and>
                ws_balance s' = b2 \<and> ws_currentWithdrawal s' = w \<and>
                ws_depletedAt s' = ws_depletedAt s"
proof -
  note u = withdrawal_loop_unfold [OF assms(1), of mr ir adj s, unfolded Let_def, folded w, folded b2]
  show "ws_balance s < w \<or> b2 \<le> 0 \<Longrightarrow>
           ws_depletedAt (withdrawal_loop M mr ir adj m s) = Some m"
    unfolding u by auto
  show "\<not> (ws_balance s < w \<or> b2 \<le> 0) \<Longrightarrow>
           \<exists>s'. withdrawal_loop M mr ir adj m s = withdrawal_loop M mr ir adj (m + 1) s' \<and>
                ws_balance s' = b2 \<and> ws_currentWithdrawal s' = w \<and>
                ws_depletedAt s' = ws_depletedAt s"
    unfolding u by (intro exI conjI) (simp, simp_all)
qed

lemma withdrawal_loop_depletion_mono:
  assumes "ws_balance s1 \<le> ws_balance s2"
    and "ws_currentWithdrawal s1 = ws_currentWithdrawal s2"
    and "ws_depletedAt s1 = None" and "ws_depletedAt s2 = None"
    and "ws_depletedAt (withdrawal_loop M mr ir adj m s2) = Some d2"
  shows "\<exists>d1. ws_depletedAt (withdrawal_loop M mr ir adj m s1) = Some d1 \<and> d1 \<le> d2 \<and> m \<le> d2"
  using assms
proof (induction "Suc M - m" arbitrary: m s1 s2)
  case 0
  then have "\<not> m \<le> M" by simp
  with "0.prems" show ?case
    by (subst (asm) withdrawal_loop.simps) simp
next
  case (Suc k)
  then have mM: "m \<le> M" by simp
  have k: "k = Suc M - (m + 1)" using Suc.hyps(2) by simp
  define w where "w = (if adj \<and> m > 1 \<and> (m - 1) mod 12 = 0
               then ws_currentWithdrawal s2 * (1 + ir / 100)
               else ws_currentWithdrawal s2)"
  have w1: "w = (if adj \<and> m > 1 \<and> (m - 1) mod 12 = 0
               then ws_currentWithdrawal s1 * (1 + ir / 100)
               else ws_currentWithdrawal s1)"
    using Suc.prems(2) by (simp add: w_def)
  define a1 where "a1 = (if ws_balance s1 - w > 0 then (ws_balance s1 - w) * (1 + mr)
                   else ws_balance s1 - w)"
  define a2 where "a2 = (if ws_balance s2 - w > 0 then (ws_balance s2 - w) * (1 + mr)
                   else ws_balance s2 - w)"
  note st1 = withdrawal_loop_step [OF mM w1 a1_def]
  note st2 = withdrawal_loop_step [OF mM w_def a2_def]
  have later: "m + 1 \<le> d2 \<and> (\<exists>s2'. withdrawal_loop M mr ir adj m s2 = withdrawal_loop M mr ir adj (m + 1) s2' \<and>
                ws_balance s2' = a2 \<and> ws_currentWithdrawal s2' = w \<and>
                ws_depletedAt s2' = None)"
    if n2: "\<not> (ws_balance s2 < w \<or> a2 \<le> 0)"
  proof -
    from st2(2) [OF n2] obtain s2' where s2': "withdrawal_loop M mr ir adj m s2 = withdrawal_loop M mr ir adj (m + 1) s2'"
      "ws_balance s2' = a2" "ws_currentWithdrawal s2' = w" "ws_depletedAt s2' = None"
      using Suc.prems(4) by auto
    have "\<exists>d1. ws_depletedAt (withdrawal_loop M mr ir adj (m + 1) s2') = Some d1 \<and> d1 \<le> d2 \<and> m + 1 \<le> d2"
      using Suc.hyps(1) [OF k, of s2' s2'] s2' Suc.prems(5) by simp
    with s2' show ?thesis by auto
  qed
  have md2: "m \<le> d2"
  proof (cases "ws_balance s2 < w \<or> a2 \<le> 0")
    case True
    from st2(1) [OF True] Suc.prems(5) show ?thesis by simp
  next
    case False
    from later [OF False] show ?thesis by simp
  qed
  show ?case
  proof (cases "ws_balance s1 < w \<or> a1 \<le> 0")
    case True
    from st1(1) [OF True] md2 show ?thesis by simp
  next
    case False
    then have b1: "\<not> ws_balance s1 < w" "\<not> a1 \<le> 0" by auto
    have pos1: "ws_balance s1 - w > 0"
      using b1 by (auto simp: a1_def split: if_splits)
    have "0 < (ws_balance s1 - w) * (1 + mr)"
      using b1 pos1 by (simp add: a1_def)
    then have pos: "1 + mr > 0"
      using pos1 by (rule zero_less_mult_pos)
    have le: "a1 \<le> a2"
      using pos1 pos Suc.prems(1) by (simp add: a1_def a2_def mult_right_mono)
    have n2: "\<not> (ws_balance s2 < w \<or> a2 \<le> 0)"
      using b1 le Suc.prems(1) by auto
    from later [OF n2] obtain s2' where s2': "withdrawal_loop M mr ir adj m s2 = withdrawal_loop M mr ir adj (m + 1) s2'"
      "ws_balance s2' = a2" "ws_currentWithdrawal s2' = w" "ws_depletedAt s2' = None"
      by auto
    from st1(2) [OF False] obtain s1' where s1': "withdrawal_loop M mr ir adj m s1 = withdrawal_loop M mr ir adj (m + 1) s1'"
      "ws_balance s1' = a1" "ws_currentWithdrawal s1' = w" "ws_depletedAt s1' = None"
      using Suc.prems(3) by auto
    have "\<exists>d1. ws_depletedAt (withdrawal_loop M mr ir adj (m + 1) s1') = Some d1 \<and> d1 \<le> d2 \<and> m + 1 \<le> d2"
      using Suc.hyps(1) [OF k, of s1' s2'] s1' s2' le Suc.prems(5) by simp
    then show ?thesis unfolding s1'(1) by auto
  qed
qed

text \<open>
  Claim C8. For a fixed monthly withdrawal, duration, return rate, inflation rate and
  inflation-adjustment flag, a larger initial corpus never depletes earlier: a corpus
  that lasts through the plan still lasts when enlarged, and when the larger corpus is
  depleted in some month the smaller one is depleted in that month or before.
\<close>

theorem withdrawal_depletion_monotone:
  assumes "c1 \<le> c2"
  shows "(wd_lastsThroughPlan (withdrawal_calculate c1 w y ar ir adj) \<longrightarrow>
            wd_lastsThroughPlan (withdrawal_calculate c2 w y ar ir adj)) \<and>
         (\<forall>d2. wd_depletedAt (withdrawal_calculate c2 w y ar ir adj) = Some d2 \<longrightarrow>
            (\<exists>d1. wd_depletedAt (withdrawal_calculate c1 w y ar ir adj) = Some d1 \<and> d1 \<le> d2))"
proof -
  have main: "\<exists>d1. wd_depletedAt (withdrawal_calculate c1 w y ar ir adj) = Some d1 \<and> d1 \<le> d2"
    if "wd_depletedAt (withdrawal_calculate c2 w y ar ir adj) = Some d2" for d2
    using withdrawal_loop_depletion_mono [of
        "\<lparr>ws_balance = c1, ws_totalWithdrawn = 0, ws_currentWithdrawal = w, ws_schedule = [],
          ws_depletedAt = None\<rparr>"
        "\<lparr>ws_balance = c2, ws_totalWithdrawn = 0, ws_currentWithdrawal = w, ws_schedule = [],
          ws_depletedAt = None\<rparr>" "y * 12" "ar / 100 / 12" ir adj 1 d2] assms that
    by (auto simp: withdrawal_calculate_def Let_def)
  have "wd_lastsThroughPlan (withdrawal_calculate c1 w y ar ir adj) \<longrightarrow>
            wd_lastsThroughPlan (withdrawal_calculate c2 w y ar ir adj)"
  proof
    assume l1: "wd_lastsThroughPlan (withdrawal_calculate c1 w y ar ir adj)"
    then have n1: "wd_depletedAt (withdrawal_calculate c1 w y ar ir adj) = None"
      by (simp add: withdrawal_calculate_def Let_def)
    have "wd_depletedAt (withdrawal_calculate c2 w y ar ir adj) = None"
    proof (cases "wd_depletedAt (withdrawal_calculate c2 w y ar ir adj)")
      case None then show ?thesis .
    next
      case (Some d2)
      from main [OF Some] n1 show ?thesis by simp
    qed
    then show "wd_lastsThroughPlan (withdrawal_calculate c2 w y ar ir adj)"
      by (simp add: withdrawal_calculate_def Let_def)
  qed
  with main show ?thesis by blast
qed

theorem withdrawal_depletion_monotone_witness:
  "(1000::real) \<le> 5000 \<and>
   wd_depletedAt (withdrawal_calculate 5000 1000 1 0 0 False) = Some 5 \<and>
   (\<exists>d1. wd_depletedAt (withdrawal_calculate 1000 1000 1 0 0 False) = Some d1 \<and> d1 \<le> 5)"
proof -
  have le: "(1000::real) \<le> 5000" by simp
  have c2: "wd_depletedAt (withdrawal_calculate 5000 1000 1 0 0 False) = Some 5"
    by (simp add: withdrawal_calculate_def withdrawal_loop_unfold Let_def)
  from withdrawal_depletion_monotone [OF le, of 1000 1 0 0 False] c2
  have "\<exists>d1. wd_depletedAt (withdrawal_calculate 1000 1000 1 0 0 False) = Some d1 \<and> d1 \<le> 5"
    by blast
  with le c2 show ?thesis by blast
qed

section \<open>Forward projection against the closed form\<close>

lemma sip_loop_done: "\<not> m \<le> M \<Longrightarrow> sip_loop cfg sc M m s = s"
  by (subst sip_loop.simps) simp

lemma sip_loop_flat_step:
  assumes "m \<le> M" and "1 \<le> m"
    and flat: "\<forall>year\<ge>1. getReturnForYear sc year = rate"
    and nostep: "stepUpSchedules cfg = []"
  shows "\<exists>s'. sip_loop cfg sc M m s = sip_loop cfg sc M (m + 1) s' \<and>
           ss_balance s' = (ss_balance s + ss_currentSIP s) * (1 + rate / 100 / 12) \<and>
           ss_currentSIP s' = ss_currentSIP s"
proof -
  have "1 \<le> \<lceil>real m / 12\<rceil>"
    using assms(2) by (simp add: le_ceiling_iff)
  then have r: "getReturnForYear sc \<lceil>real m / 12\<rceil> = rate"
    using flat by simp
  show ?thesis
    apply (subst sip_loop.simps)
    using assms(1) apply (simp only: if_True Let_def nostep applySteUpSchedule.simps r if_cancel)
    apply (intro exI conjI)
      apply (rule refl)
     apply simp_all
    done
qed

lemma sip_loop_flat_balance:
  assumes flat: "\<forall>year\<ge>1. getReturnForYear sc year = rate"
    and nostep: "stepUpSchedules cfg = []"
    and q: "q = 1 + rate / 100 / 12"
    and "1 \<le> m" and "n = Suc M - m"
  shows "ss_balance (sip_loop cfg sc M m s) * (q - 1) =
           ss_balance s * q ^ n * (q - 1) + ss_currentSIP s * q * (q ^ n - 1)
         \<and> (q = 1 \<longrightarrow>
              ss_balance (sip_loop cfg sc M m s) = ss_balance s + real n * ss_currentSIP s)"
  using assms(4,5)
proof (induction n arbitrary: m s)
  case 0
  then have "\<not> m \<le> M" by simp
  then show ?case by (simp add: sip_loop_done)
next
  case (Suc n)
  then have mM: "m \<le> M" and n: "n = Suc M - (m + 1)" and m1: "1 \<le> m + 1" by simp_all
  from sip_loop_flat_step [OF mM Suc.prems(1) flat nostep, of s]
  obtain s' where s': "sip_loop cfg sc M m s = sip_loop cfg sc M (m + 1) s'"
      "ss_balance s' = (ss_balance s + ss_currentSIP s) * q"
      "ss_currentSIP s' = ss_currentSIP s"
    unfolding q by blast
  from Suc.IH [OF m1 n, of s']
  have ih: "ss_balance (sip_loop cfg sc M (m + 1) s') * (q - 1) =
           (ss_balance s + ss_currentSIP s) * q * q ^ n * (q - 1) +
             ss_currentSIP s * q * (q ^ n - 1)"
    and ih1: "q = 1 \<longrightarrow> ss_balance (sip_loop cfg sc M (m + 1) s') =
           (ss_balance s + ss_currentSIP s) * q + real n * ss_currentSIP s"
    by (simp_all add: s'(2,3))
  have "(ss_balance s + ss_currentSIP s) * q * q ^ n * (q - 1) + ss_currentSIP s * q * (q ^ n - 1)
      = ss_balance s * q ^ Suc n * (q - 1) + ss_currentSIP s * q * (q ^ Suc n - 1)"
    by (simp add: algebra_simps)
  with ih ih1 show ?case
    unfolding s'(1) by (auto simp: algebra_simps)
qed

text \<open>
  The identity behind the cross-check of the two engines, in exact arithmetic: with a
  flat return rate and no step-up (whatever the inflation rate, which only enters the
  deflated figures), the balance that the month-by-month recurrence of
  \<open>AdvancedSIPCalculator.calculate\<close> reaches is the closed form
  \<open>P * (((1 + r) ^ n - 1) / r) * (1 + r)\<close> of \<open>calculateFutureValue\<close> for the same
  contribution, duration and rate. It is an identity of real numbers. The code evaluates
  the recurrence by one rounded multiplication and addition a month and the closed form
  by one rounded \<open>Math.pow\<close>, and nothing here says that the two doubles it obtains are
  the same double; claim C7, which is about those two doubles, is not settled by it.
\<close>

lemma sip_forward_matches_closed_form:
  assumes "returnScenarios cfg scenarioName = Some sc"
    and "\<forall>year\<ge>1. getReturnForYear sc year = rate"
    and "stepUpSchedules cfg = []"
  shows "\<exists>res. sip_calculate cfg scenarioName = Inr res \<and>
           finalValue res = calculateFutureValue (monthlyAmount cfg) (durationYears cfg) rate"
proof -
  define s0 where "s0 = \<lparr>ss_balance = 0, ss_totalInvested = 0,
      ss_currentSIP = monthlyAmount cfg, ss_schedule = []\<rparr>"
  define r where "r = rate / 100 / 12"
  define q where "q = 1 + rate / 100 / 12"
  have qr: "q - 1 = r" "q = 1 \<longleftrightarrow> r = 0" by (simp_all add: q_def r_def)
  have n: "durationYears cfg * 12 = Suc (durationYears cfg * 12) - 1" by simp
  note b = sip_loop_flat_balance [OF assms(2,3) q_def order_refl n, of s0]
  have fv: "ss_balance (sip_loop cfg sc (durationYears cfg * 12) 1 s0) =
      calculateFutureValue (monthlyAmount cfg) (durationYears cfg) rate"
  proof (cases "r = 0")
    case True
    with b qr show ?thesis
      by (simp add: calculateFutureValue_def Let_def r_def s0_def mult.commute)
  next
    case False
    from b have "ss_balance (sip_loop cfg sc (durationYears cfg * 12) 1 s0) * r =
        monthlyAmount cfg * q * (q ^ (durationYears cfg * 12) - 1)"
      by (simp add: s0_def qr)
    then have "ss_balance (sip_loop cfg sc (durationYears cfg * 12) 1 s0) =
        monthlyAmount cfg * q * (q ^ (durationYears cfg * 12) - 1) / r"
      using False by (simp add: field_simps)
    then show ?thesis
      using False by (simp add: calculateFutureValue_def Let_def r_def q_def)
  qed
  show ?thesis
    using assms(1) fv by (simp add: sip_calculate_def Let_def s0_def)
qed

lemma sip_forward_matches_closed_form_example:
  "\<exists>res. sip_calculate
        \<lparr>monthlyAmount = 15000, durationYears = 20, stepUpSchedules = [],
         returnScenarios = [''realistic'' \<mapsto>
            addPeriod \<lparr>rs_name = ''realistic'', rs_periods = []\<rparr> 1 None 12],
         withdrawalPlan = None, inflationRate = 0\<rparr> ''realistic'' = Inr res \<and>
      finalValue res = calculateFutureValue 15000 20 12"
proof -
  define cfg where "cfg = \<lparr>monthlyAmount = 15000, durationYears = 20, stepUpSchedules = [],
         returnScenarios = [''realistic'' \<mapsto>
            addPeriod \<lparr>rs_name = ''realistic'', rs_periods = []\<rparr> 1 None 12],
         withdrawalPlan = None, inflationRate = 0\<rparr>"
  have h1: "returnScenarios cfg ''realistic'' =
      Some (addPeriod \<lparr>rs_name = ''realistic'', rs_periods = []\<rparr> 1 None 12)"
    by (simp add: cfg_def)
  have h2: "\<forall>year\<ge>1. getReturnForYear
      (addPeriod \<lparr>rs_name = ''realistic'', rs_periods = []\<rparr> 1 None 12) year = 12"
    by (simp add: getReturnForYear_def addPeriod_def rp_isActiveForYear_def)
  have h3: "stepUpSchedules cfg = []" by (simp add: cfg_def)
  from sip_forward_matches_closed_form [OF h1 h2 h3]
  show ?thesis unfolding cfg_def by simp
qed

section \<open>Tenure from a fixed payment\<close>



section \<open>Goal seeking: Newton-Raphson and bisection\<close>

lemma bisect_loop_between:
  "low < high \<Longrightarrow>
     low < bisect_loop targetAmount years annualReturn low high iterations \<and>
     bisect_loop targetAmount years annualReturn low high iterations < high"
proof (induction targetAmount years annualReturn low high iterations rule: bisect_loop.induct)
  case (1 targetAmount years annualReturn low high iterations)
  let ?mid = "(low + high) / 2"
  have mid: "low < ?mid" "?mid < high" using "1.prems" by simp_all
  show ?case
  proof (cases "iterations < maxIterations \<and> high - low > 1")
    case False
    then show ?thesis
      using mid by (subst (1 2) bisect_loop.simps) auto
  next
    case True
    show ?thesis
    proof (cases "\<bar>calculateFutureValue ?mid years annualReturn - targetAmount\<bar> < tolerance")
      case conv: True
      then show ?thesis
        using True mid by (subst (1 2) bisect_loop.simps) (simp add: Let_def)
    next
      case nconv: False
      show ?thesis
      proof (cases "calculateFutureValue ?mid years annualReturn < targetAmount")
        case lt: True
        from "1.IH"(1) [OF True refl refl nconv lt mid(2)]
        show ?thesis
          using True nconv lt mid by (subst (1 2) bisect_loop.simps) (simp add: Let_def)
      next
        case ge: False
        from "1.IH"(2) [OF True refl refl nconv ge mid(1)]
        show ?thesis
          using True nconv ge mid by (subst (1 2) bisect_loop.simps) (simp add: Let_def)
      qed
    qed
  qed
qed

lemma calculateFutureValue_linear:
  "calculateFutureValue s y r = s * calculateFutureValue 1 y r"
  by (simp add: calculateFutureValue_def Let_def)

lemma calculateFutureValue_unit_lower:
  assumes "0 \<le> r"
  shows "real (y * 12) * (1 + r / 100 / 12) \<le> calculateFutureValue 1 y r"
proof (cases "r = 0")
  case True
  then show ?thesis by (simp add: calculateFutureValue_def Let_def)
next
  case False
  define m where "m = r / 100 / 12"
  have m: "0 < m" using assms False by (simp add: m_def)
  have bern: "1 + real (y * 12) * m \<le> (1 + m) ^ (y * 12)"
    using Bernoulli_inequality [of m "y * 12"] m by simp
  then have "real (y * 12) * m \<le> (1 + m) ^ (y * 12) - 1" by simp
  then have "real (y * 12) \<le> ((1 + m) ^ (y * 12) - 1) / m"
    using m by (simp add: pos_le_divide_eq)
  then have "real (y * 12) * (1 + m) \<le> ((1 + m) ^ (y * 12) - 1) / m * (1 + m)"
    using m by (intro mult_right_mono) simp_all
  then show ?thesis
    using m by (simp add: calculateFutureValue_def Let_def m_def)
qed

lemma calculateFutureValue_unit_ge_months:
  assumes "0 \<le> r"
  shows "real (y * 12) \<le> calculateFutureValue 1 y r"
proof -
  have "real (y * 12) * 1 \<le> real (y * 12) * (1 + r / 100 / 12)"
    using assms by (intro mult_left_mono) simp_all
  with calculateFutureValue_unit_lower [OF assms, of y] show ?thesis by simp
qed

lemma newton_loop_converged:
  assumes "iterations < maxIterations"
    and "\<bar>calculateFutureValue sip years annualReturn - targetAmount\<bar> < tolerance"
  shows "newton_loop targetAmount years annualReturn sip iterations = Returned sip"
  using assms by (subst newton_loop.simps) (simp add: Let_def)

lemma newton_loop_step:
  assumes "iterations < maxIterations"
    and "\<not> \<bar>calculateFutureValue sip years annualReturn - targetAmount\<bar> < tolerance"
    and "\<not> \<bar>calculateFutureValue 1 years annualReturn\<bar> < 0.001"
  shows "newton_loop targetAmount years annualReturn sip iterations =
     newton_loop targetAmount years annualReturn
       (if sip - (calculateFutureValue sip years annualReturn - targetAmount)
                   / calculateFutureValue 1 years annualReturn < 100 then 100
        else sip - (calculateFutureValue sip years annualReturn - targetAmount)
                   / calculateFutureValue 1 years annualReturn)
       (iterations + 1)"
proof -
  have d: "(calculateFutureValue (sip + 1) years annualReturn
        - calculateFutureValue sip years annualReturn) / 1 = calculateFutureValue 1 years annualReturn"
    by (subst (1 2) calculateFutureValue_linear) (simp add: algebra_simps)
  show ?thesis
    using assms by (subst newton_loop.simps) (simp only: Let_def d if_True if_False)
qed

lemma newtonRaphsonMethod_converges:
  assumes T: "0 < T" and y: "0 < y" and r: "0 \<le> r"
    and big: "r = 0 \<or> 100 * calculateFutureValue 1 y r \<le> T"
  shows "\<exists>sip. newtonRaphsonMethod T y r = Some sip \<and>
           \<bar>calculateFutureValue sip y r - T\<bar> < tolerance"
proof -
  define c where "c = calculateFutureValue 1 y r"
  define s0 where "s0 = T / real (y * 12)"
  have n: "y * 12 \<noteq> 0" "0 < real (y * 12)" using y by simp_all
  have c12: "real (y * 12) \<le> c" unfolding c_def using r by (rule calculateFutureValue_unit_ge_months)
  then have cpos: "0 < c" using n by linarith
  have c1: "1 \<le> c" using c12 y by (simp add: c_def) linarith?
  have fv: "calculateFutureValue s y r = s * c" for s
    unfolding c_def by (rule calculateFutureValue_linear)
  have nr: "newtonRaphsonMethod T y r =
      (case newton_loop T y r s0 0 of
         Returned sip \<Rightarrow> Some sip
       | LeftLoop sip iterations \<Rightarrow>
           if iterations \<ge> maxIterations then Some (binarySearchMethod T y r) else Some sip)"
    using n by (simp add: newtonRaphsonMethod_def s0_def)
  show ?thesis
  proof (cases "\<bar>calculateFutureValue s0 y r - T\<bar> < tolerance")
    case True
    have "newton_loop T y r s0 0 = Returned s0"
      by (rule newton_loop_converged) (simp_all add: maxIterations_def True)
    with True show ?thesis by (simp add: nr)
  next
    case False
    have rpos: "r \<noteq> 0"
    proof
      assume "r = 0"
      then have "calculateFutureValue s0 y r = T"
        using n by (simp add: calculateFutureValue_def Let_def s0_def)
      with False show False by (simp add: tolerance_def)
    qed
    with big have big': "100 * c \<le> T" by (simp add: c_def)
    have nflat: "\<not> \<bar>calculateFutureValue 1 y r\<bar> < 0.001"
      using c1 by (simp add: c_def)
    have upd: "s0 - (calculateFutureValue s0 y r - T) / calculateFutureValue 1 y r = T / c"
      using cpos by (simp add: fv c_def [symmetric] field_simps)
    have ge: "\<not> T / c < 100"
      using big' cpos by (simp add: pos_less_divide_eq not_less pos_le_divide_eq mult.commute)
    have "newton_loop T y r s0 0 = newton_loop T y r (T / c) 1"
      using newton_loop_step [of 0 s0 y r T] False nflat ge
      by (simp add: maxIterations_def upd)
    moreover have conv: "\<bar>calculateFutureValue (T / c) y r - T\<bar> < tolerance"
      using cpos by (simp add: fv tolerance_def)
    moreover have "newton_loop T y r (T / c) 1 = Returned (T / c)"
      by (rule newton_loop_converged) (simp_all add: maxIterations_def conv)
    ultimately show ?thesis by (simp add: nr)
  qed
qed


lemma newton_loop_exhausted: "\<not> iterations < maxIterations \<Longrightarrow>
    newton_loop targetAmount years annualReturn sip iterations = LeftLoop sip iterations"
  by (subst newton_loop.simps) simp

lemma newton_loop_floor_stuck:
  assumes nflat: "\<not> \<bar>calculateFutureValue 1 y r\<bar> < 0.001"
    and nconv: "\<not> \<bar>calculateFutureValue 100 y r - T\<bar> < tolerance"
    and low: "100 - (calculateFutureValue 100 y r - T) / calculateFutureValue 1 y r < 100"
    and "k = maxIterations - iterations" and "iterations \<le> maxIterations"
  shows "newton_loop T y r 100 iterations = LeftLoop 100 maxIterations"
  using assms(4,5)
proof (induction k arbitrary: iterations)
  case 0
  then have "iterations = maxIterations" by simp
  then show ?case by (simp add: newton_loop_exhausted)
next
  case (Suc k)
  then have lt: "iterations < maxIterations" and k: "k = maxIterations - (iterations + 1)"
    and le: "iterations + 1 \<le> maxIterations" by simp_all
  from newton_loop_step [OF lt nconv nflat] low
  have "newton_loop T y r 100 iterations = newton_loop T y r 100 (iterations + 1)" by simp
  with Suc.IH [OF k le] show ?case by simp
qed

lemma newton_loop_flat_derivative:
  assumes "iterations < maxIterations"
    and "\<not> \<bar>calculateFutureValue sip years annualReturn - targetAmount\<bar> < tolerance"
    and "\<bar>(calculateFutureValue (sip + 1) years annualReturn
            - calculateFutureValue sip years annualReturn) / 1\<bar> < 0.001"
  shows "newton_loop targetAmount years annualReturn sip iterations = LeftLoop sip iterations"
  using assms by (subst newton_loop.simps) (simp add: Let_def)

text \<open>
  Claim C4. Whenever the Newton-Raphson loop ends without convergence, by a flat
  derivative or by an exhausted budget, the value returned should be the bisection
  result. On a flat derivative the code returns the current guess instead: the
  \<open>break\<close> leaves \<open>iterations\<close> below \<open>maxIterations\<close>, so the test before the
  fallback fails. With a monthly return of -100% the future value is 0 for every
  contribution: for the target 120000 over one year the first guess 10000 is
  returned, not converged and different from the bisection result.
\<close>

theorem newtonRaphson_flat_derivative_returns_guess:
  "newtonRaphsonMethod 120000 1 (- 1200) = Some 10000 \<and>
   \<not> \<bar>calculateFutureValue 10000 1 (- 1200) - 120000\<bar> < tolerance \<and>
   binarySearchMethod 120000 1 (- 1200) < 10000"
proof -
  have fv: "calculateFutureValue s y (- 1200) = 0" for s y
    by (simp add: calculateFutureValue_def Let_def)
  have "newton_loop 120000 1 (- 1200) 10000 0 = LeftLoop 10000 0"
    by (rule newton_loop_flat_derivative) (simp_all add: fv maxIterations_def tolerance_def)
  then have "newtonRaphsonMethod 120000 1 (- 1200) = Some 10000"
    by (simp add: newtonRaphsonMethod_def maxIterations_def)
  moreover have "\<not> \<bar>calculateFutureValue 10000 1 (- 1200) - 120000\<bar> < tolerance"
    by (simp add: fv tolerance_def)
  moreover have "binarySearchMethod 120000 1 (- 1200) < 10000"
    using bisect_loop_between [of 100 "120000 / 12" 120000 1 "- 1200" 0]
    by (simp add: binarySearchMethod_def)
  ultimately show ?thesis by simp
qed

text \<open>
  Claim C5 (as amended). For a target \<open>T > 0\<close>, a whole number of years \<open>y > 0\<close> and a
  return rate \<open>r \<ge> 0\<close>, with no step-up and no inflation, and with the exact solution
  \<open>T / FV(1, y, r)\<close> at least the floor of 100 that the iteration imposes (or \<open>r = 0\<close>):
  \<open>calculateRequiredSIP\<close> returns a result whose \<open>achievedAmount\<close>, the closed-form
  future value at the unrounded root, is within 100 of \<open>T\<close>; \<open>requiredSIP\<close> is that
  root rounded up to the next multiple of 100, so its future value is at least the
  achieved amount; \<open>success\<close> is true, the result having no non-convergence flag.
\<close>

theorem calculateRequiredSIP_round_trip:
  assumes "0 < T" and "0 < y" and "0 \<le> r"
    and "r = 0 \<or> 100 * calculateFutureValue 1 y r \<le> T"
  shows "\<exists>res sip. calculateRequiredSIP T y r 0 0 = Some res \<and> gr_success res \<and>
           gr_achievedAmount res = calculateFutureValue sip y r \<and>
           \<bar>gr_achievedAmount res - T\<bar> < 100 \<and>
           gr_requiredSIP res = real_of_int \<lceil>sip / 100\<rceil> * 100 \<and>
           sip \<le> gr_requiredSIP res \<and> gr_requiredSIP res < sip + 100 \<and>
           gr_achievedAmount res \<le> calculateFutureValue (gr_requiredSIP res) y r"
proof -
  from newtonRaphsonMethod_converges [OF assms]
  obtain sip where sip: "newtonRaphsonMethod T y r = Some sip"
      "\<bar>calculateFutureValue sip y r - T\<bar> < tolerance"
    by blast
  define R where "R = real_of_int \<lceil>sip / 100\<rceil> * 100"
  have cc: "real_of_int \<lceil>sip / 100\<rceil> - 1 < sip / 100 \<and> sip / 100 \<le> real_of_int \<lceil>sip / 100\<rceil>"
    by (rule ceiling_correct)
  have up: "sip \<le> R" unfolding R_def using cc by linarith
  have lt: "R < sip + 100" unfolding R_def using cc by linarith
  have c0: "0 \<le> calculateFutureValue 1 y r"
    using calculateFutureValue_unit_ge_months [OF assms(3), of y]
    by (meson of_nat_0_le_iff order_trans)
  have mono: "calculateFutureValue sip y r \<le> calculateFutureValue R y r"
    by (subst (1 2) calculateFutureValue_linear) (intro mult_right_mono up c0)
  define res where "res = \<lparr>gr_success = True, gr_requiredSIP = R, gr_targetAmount = T,
            gr_inflationAdjustedTarget = T,
            gr_achievedAmount = calculateFutureValue sip y r,
            gr_totalInvestment = sip * real y * 12,
            gr_wealthGain = calculateFutureValue sip y r - sip * real y * 12,
            gr_realValue = calculateFutureValue sip y r,
            gr_years = y, gr_annualReturn = r, gr_inflationRate = 0, gr_stepUpPercent = 0\<rparr>"
  have eq: "calculateRequiredSIP T y r 0 0 = Some res"
    by (simp add: calculateRequiredSIP_def Let_def sip(1) R_def res_def)
  have fields: "gr_success res" "gr_achievedAmount res = calculateFutureValue sip y r"
      "gr_requiredSIP res = R"
    by (simp_all add: res_def)
  show ?thesis
  proof (intro exI conjI)
    show "calculateRequiredSIP T y r 0 0 = Some res" by (rule eq)
    show "gr_success res" by (rule fields)
    show "gr_achievedAmount res = calculateFutureValue sip y r" by (rule fields)
    show "\<bar>gr_achievedAmount res - T\<bar> < 100" using sip(2) by (simp add: fields tolerance_def)
    show "gr_requiredSIP res = real_of_int \<lceil>sip / 100\<rceil> * 100" by (simp add: fields R_def)
    show "sip \<le> gr_requiredSIP res" using up by (simp add: fields)
    show "gr_requiredSIP res < sip + 100" using lt by (simp add: fields)
    show "gr_achievedAmount res \<le> calculateFutureValue (gr_requiredSIP res) y r"
      using mono by (simp add: fields)
  qed
qed


theorem calculateRequiredSIP_round_trip_witness:
  "100 * calculateFutureValue 1 1 12 \<le> 120000 \<and>
   (\<exists>res sip. calculateRequiredSIP 120000 1 12 0 0 = Some res \<and> gr_success res \<and>
           gr_achievedAmount res = calculateFutureValue sip 1 12 \<and>
           \<bar>gr_achievedAmount res - 120000\<bar> < 100 \<and>
           gr_requiredSIP res = real_of_int \<lceil>sip / 100\<rceil> * 100 \<and>
           sip \<le> gr_requiredSIP res \<and> gr_requiredSIP res < sip + 100 \<and>
           gr_achievedAmount res \<le> calculateFutureValue (gr_requiredSIP res) 1 12)"
proof -
  have big: "100 * calculateFutureValue 1 1 12 \<le> 120000"
    by (simp add: calculateFutureValue_def Let_def power_divide)
  then have h: "(12::real) = 0 \<or> 100 * calculateFutureValue 1 1 12 \<le> 120000" by simp
  have T: "(0::real) < 120000" and y: "(0::nat) < 1" and r: "(0::real) \<le> 12" by simp_all
  from calculateRequiredSIP_round_trip [OF T y r h] big show ?thesis by blast
qed

text \<open>
  Claim C5 as stated fails. Target 1212 over one year at 0%: the root 101 is exact, but
  the returned \<open>requiredSIP\<close> is 200, whose future value 2400 is 1188 away from the
  target. Target 12000 over ten years at 12%: the exact solution is below the floor of
  100, the iteration stays at 100 until its budget is spent, and the bisection result
  misses the target by more than 100. Both results have \<open>success = True\<close>.
\<close>

theorem calculateRequiredSIP_round_trip_counterexample:
  "(case calculateRequiredSIP 1212 1 0 0 0 of
      None \<Rightarrow> False
    | Some res \<Rightarrow> gr_success res \<and> gr_requiredSIP res = 200 \<and>
        \<not> \<bar>calculateFutureValue (gr_requiredSIP res) 1 0 - 1212\<bar> < 100) \<and>
   (case calculateRequiredSIP 12000 10 12 0 0 of
      None \<Rightarrow> False
    | Some res \<Rightarrow> gr_success res \<and> \<not> \<bar>gr_achievedAmount res - 12000\<bar> < 100 \<and>
        \<not> \<bar>calculateFutureValue (gr_requiredSIP res) 10 12 - 12000\<bar> < 100)"
proof -
  have fv0: "calculateFutureValue s y 0 = s * real (y * 12)" for s y
    by (simp add: calculateFutureValue_def Let_def)
  have "newton_loop 1212 1 0 (1212 / real (1 * 12)) 0 = Returned 101"
    using newton_loop_converged [of 0 101 1 0 1212]
    by (simp add: fv0 maxIterations_def tolerance_def)
  then have nr1: "newtonRaphsonMethod 1212 1 0 = Some 101"
    by (simp add: newtonRaphsonMethod_def)
  have ceil1: "\<lceil>(101::real) / 100\<rceil> = 2" by (simp add: ceiling_eq_iff)
  have part1: "(case calculateRequiredSIP 1212 1 0 0 0 of
      None \<Rightarrow> False
    | Some res \<Rightarrow> gr_success res \<and> gr_requiredSIP res = 200 \<and>
        \<not> \<bar>calculateFutureValue (gr_requiredSIP res) 1 0 - 1212\<bar> < 100)"
    using nr1 by (simp add: calculateRequiredSIP_def Let_def ceil1 fv0)
  define c where "c = calculateFutureValue 1 10 12"
  have "real (10 * 12) * (1 + 12 / 100 / 12) \<le> c"
    unfolding c_def by (rule calculateFutureValue_unit_lower) simp
  then have c: "606 / 5 \<le> c" by simp
  have fv: "calculateFutureValue s 10 12 = s * c" for s
    unfolding c_def by (rule calculateFutureValue_linear)
  have nflat: "\<not> \<bar>calculateFutureValue 1 10 12\<bar> < 0.001"
    using c by (simp add: c_def)
  have nconv: "\<not> \<bar>calculateFutureValue 100 10 12 - 12000\<bar> < tolerance"
    using c by (simp add: fv tolerance_def)
  have low: "100 - (calculateFutureValue 100 10 12 - 12000) / calculateFutureValue 1 10 12 < 100"
    using c by (simp add: fv c_def [symmetric] field_simps)
  have "newton_loop 12000 10 12 100 0 = LeftLoop 100 maxIterations"
    by (rule newton_loop_floor_stuck [OF nflat nconv low]) simp_all
  then have nr2: "newtonRaphsonMethod 12000 10 12 = Some (binarySearchMethod 12000 10 12)"
    by (simp add: newtonRaphsonMethod_def)
  define b where "b = binarySearchMethod 12000 10 12"
  have b: "100 < b"
    using bisect_loop_between [of 100 "12000 / 12" 12000 10 12 0]
    by (simp add: binarySearchMethod_def b_def)
  have "100 * c < b * c" using b c by simp
  then have far: "12120 < b * c" using c by linarith
  have "b / 100 \<le> real_of_int \<lceil>b / 100\<rceil>" by (rule le_of_int_ceiling)
  then have "b \<le> real_of_int \<lceil>b / 100\<rceil> * 100" by linarith
  then have "b * c \<le> real_of_int \<lceil>b / 100\<rceil> * 100 * c"
    using c by (intro mult_right_mono) simp_all
  with far have far': "12120 < real_of_int \<lceil>b / 100\<rceil> * 100 * c" by linarith
  have part2: "(case calculateRequiredSIP 12000 10 12 0 0 of
      None \<Rightarrow> False
    | Some res \<Rightarrow> gr_success res \<and> \<not> \<bar>gr_achievedAmount res - 12000\<bar> < 100 \<and>
        \<not> \<bar>calculateFutureValue (gr_requiredSIP res) 10 12 - 12000\<bar> < 100)"
    using far far' nr2
    by (simp add: calculateRequiredSIP_def Let_def b_def [symmetric] fv)
  from part1 part2 show ?thesis by simp
qed

section \<open>Loan simulation: one month and the loops\<close>

lemma record_month_fields:
  assumes "p \<le> cs_balance s"
  shows "cs_balance (record_month s m rate i p e tp info st) = cs_balance s - p"
    and "cs_currentEMI (record_month s m rate i p e tp info st) = e"
    and "cs_totalInterestPaid (record_month s m rate i p e tp info st) = cs_totalInterestPaid s + i"
    and "cs_totalPrincipalPaid (record_month s m rate i p e tp info st) = cs_totalPrincipalPaid s + p"
    and "cs_schedule (record_month s m rate i p e tp info st) = cs_schedule s @
            [\<lparr>row_month = m, row_balance = cs_balance s - p, row_interest = i,
              row_principal = p, row_emi = e, row_prepayment = tp,
              row_prepaymentType = pi_type info, row_rate = rate,
              row_strategy = (if tp > 0 then Some st else None)\<rparr>]"
  using assms by (simp_all add: record_month_def Let_def max_def)

text \<open>What one iteration does to the state, whenever it yields a state.\<close>

lemma calc_iteration_result:
  assumes ok: "calc_iteration cfg m s = Inr s'" and pos: "0 \<le> cs_balance s"
  defines "r \<equiv> getInterestRateForMonth (interestRateSchedule cfg) m / 100 / 12"
  defines "p1 \<equiv> (if min (cs_currentEMI s - cs_balance s * r) (cs_balance s) < 0 then 0
                  else min (cs_currentEMI s - cs_balance s * r) (cs_balance s))"
  defines "A \<equiv> pi_amount (getPrepaymentForMonth cfg m)"
  defines "tp \<equiv> (if A > 0 then min A (cs_balance s - p1) else 0)"
  shows "cs_balance s' = cs_balance s - (p1 + tp)"
    and "cs_totalInterestPaid s' = cs_totalInterestPaid s + cs_balance s * r"
    and "cs_totalPrincipalPaid s' = cs_totalPrincipalPaid s + (p1 + tp)"
    and "\<exists>row. cs_schedule s' = cs_schedule s @ [row] \<and>
           row_month row = m \<and>
           row_balance row = cs_balance s' \<and> row_emi row = cs_currentEMI s' \<and>
           row_rate row = getInterestRateForMonth (interestRateSchedule cfg) m \<and>
           row_interest row = cs_balance s * r \<and> row_principal row = p1 + tp \<and>
           row_prepayment row = (if A > 0 then tp else A)"
    and "(case pi_strategy (getPrepaymentForMonth cfg m) of
            Some st \<Rightarrow> st | None \<Rightarrow> defaultStrategy cfg) \<noteq> REDUCE_EMI \<or> \<not> A > 0
          \<Longrightarrow> cs_currentEMI s' = cs_currentEMI s"
proof -
  have p1b: "p1 \<le> cs_balance s" and p10: "0 \<le> p1"
    using pos by (auto simp: p1_def)
  have tpb: "p1 + tp \<le> cs_balance s" and tp0: "0 \<le> tp"
    using p1b by (auto simp: tp_def)
  note rm = record_month_fields [OF tpb]
  note rm1 = record_month_fields [OF p1b]
  have cases: "(A > 0 \<and> (\<exists>e. s' = record_month s m (getInterestRateForMonth (interestRateSchedule cfg) m)
                    (cs_balance s * r) (p1 + tp) e tp (getPrepaymentForMonth cfg m)
                    (case pi_strategy (getPrepaymentForMonth cfg m) of
                       Some st \<Rightarrow> st | None \<Rightarrow> defaultStrategy cfg) \<and>
                  ((case pi_strategy (getPrepaymentForMonth cfg m) of
                       Some st \<Rightarrow> st | None \<Rightarrow> defaultStrategy cfg) \<noteq> REDUCE_EMI
                     \<longrightarrow> e = cs_currentEMI s)))
     \<or> (\<not> A > 0 \<and> s' = record_month s m (getInterestRateForMonth (interestRateSchedule cfg) m)
                    (cs_balance s * r) p1 (cs_currentEMI s) A (getPrepaymentForMonth cfg m)
                    (case pi_strategy (getPrepaymentForMonth cfg m) of
                       Some st \<Rightarrow> st | None \<Rightarrow> defaultStrategy cfg))"
    using ok unfolding calc_iteration_def Let_def r_def [symmetric] A_def [symmetric]
    by (auto simp: p1_def tp_def split: if_splits option.splits)
  have tpz: "\<not> A > 0 \<Longrightarrow> tp = 0" by (simp add: tp_def)
  from cases show "cs_balance s' = cs_balance s - (p1 + tp)"
    by (auto simp: rm rm1 tpz)
  from cases show "cs_totalInterestPaid s' = cs_totalInterestPaid s + cs_balance s * r"
    by (auto simp: rm rm1)
  from cases show "cs_totalPrincipalPaid s' = cs_totalPrincipalPaid s + (p1 + tp)"
    by (auto simp: rm rm1 tpz)
  from cases show "\<exists>row. cs_schedule s' = cs_schedule s @ [row] \<and>
           row_month row = m \<and>
           row_balance row = cs_balance s' \<and> row_emi row = cs_currentEMI s' \<and>
           row_rate row = getInterestRateForMonth (interestRateSchedule cfg) m \<and>
           row_interest row = cs_balance s * r \<and> row_principal row = p1 + tp \<and>
           row_prepayment row = (if A > 0 then tp else A)"
    by (auto simp: rm rm1 tpz)
  from cases show "(case pi_strategy (getPrepaymentForMonth cfg m) of
            Some st \<Rightarrow> st | None \<Rightarrow> defaultStrategy cfg) \<noteq> REDUCE_EMI \<or> \<not> A > 0
          \<Longrightarrow> cs_currentEMI s' = cs_currentEMI s"
    by (auto simp: rm rm1)
qed

lemma calc_iteration_balance_nonneg:
  assumes "calc_iteration cfg m s = Inr s'" and "0 \<le> cs_balance s"
  shows "0 \<le> cs_balance s'"
proof -
  define r where "r = getInterestRateForMonth (interestRateSchedule cfg) m / 100 / 12"
  define p1 where "p1 = (if min (cs_currentEMI s - cs_balance s * r) (cs_balance s) < 0 then 0
                  else min (cs_currentEMI s - cs_balance s * r) (cs_balance s))"
  define A where "A = pi_amount (getPrepaymentForMonth cfg m)"
  define tp where "tp = (if A > 0 then min A (cs_balance s - p1) else 0)"
  have "cs_balance s' = cs_balance s - (p1 + tp)"
    using calc_iteration_result(1) [OF assms] by (simp add: r_def p1_def A_def tp_def)
  moreover have "p1 \<le> cs_balance s" using assms(2) by (auto simp: p1_def)
  then have "p1 + tp \<le> cs_balance s" by (auto simp: tp_def)
  ultimately show ?thesis by simp
qed

lemma calculateEMI_zero_rate: "calculateEMI p 0 n \<noteq> None"
  by (simp add: calculateEMI_def)

lemma estimateRemainingMonths_zero_rate: "estimateRemainingMonths n e b 0 \<noteq> None"
  by (simp add: estimateRemainingMonths_def)

lemma calc_iteration_total_zero_rate:
  assumes "getInterestRateForMonth (interestRateSchedule cfg) m = 0"
  shows "\<exists>s'. calc_iteration cfg m s = Inr s'"
  unfolding calc_iteration_def Let_def assms
  by (auto simp: calculateEMI_zero_rate estimateRemainingMonths_zero_rate split: option.splits)

lemma calc_iteration_total_no_reduce_emi:
  assumes "(case pi_strategy (getPrepaymentForMonth cfg m) of
            Some st \<Rightarrow> st | None \<Rightarrow> defaultStrategy cfg) \<noteq> REDUCE_EMI
           \<or> \<not> pi_amount (getPrepaymentForMonth cfg m) > 0"
  shows "\<exists>s'. calc_iteration cfg m s = Inr s'"
  using assms unfolding calc_iteration_def Let_def by auto

lemma calc_loop_unfold:
  "calc_loop cfg month s =
     (if cs_balance s > 0.01 \<and> month < baseTenureMonths cfg * 3 then
        (case calc_iteration cfg (month + 1) s of
           Inl e \<Rightarrow> Inl e
         | Inr s' \<Rightarrow>
             if cs_balance s' \<le> 0.01 then Inr (month + 1, s'\<lparr>cs_balance := 0\<rparr>)
             else calc_loop cfg (month + 1) s')
      else Inr (month, s))"
  by (rule calc_loop.simps)

lemma calc_loop_zero_rate:
  assumes zero: "\<forall>m. getInterestRateForMonth (interestRateSchedule cfg) m = 0"
  shows "0 \<le> cs_balance s \<Longrightarrow>
     \<exists>m' s'. calc_loop cfg month s = Inr (m', s') \<and>
        cs_totalInterestPaid s' = cs_totalInterestPaid s"
  using zero
proof (induction cfg month s rule: calc_loop.induct)
  case (1 cfg month s)
  show ?case
  proof (cases "cs_balance s > 0.01 \<and> month < baseTenureMonths cfg * 3")
    case False
    then show ?thesis by (subst calc_loop_unfold) auto
  next
    case True
    from calc_iteration_total_zero_rate [of cfg "month + 1" s] "1.prems"(2)
    obtain s1 where s1: "calc_iteration cfg (month + 1) s = Inr s1" by blast
    have ti: "cs_totalInterestPaid s1 = cs_totalInterestPaid s"
      using calc_iteration_result(2) [OF s1 "1.prems"(1)] "1.prems"(2) by simp
    have nn: "0 \<le> cs_balance s1"
      using calc_iteration_balance_nonneg [OF s1 "1.prems"(1)] .
    show ?thesis
    proof (cases "cs_balance s1 \<le> 0.01")
      case fin: True
      then show ?thesis
        using True s1 ti by (subst calc_loop_unfold) simp
    next
      case cont: False
      from "1.IH" [OF True s1 cont nn "1.prems"(2)] ti
      show ?thesis
        using True s1 cont by (subst calc_loop_unfold) simp
    qed
  qed
qed

lemma getInterestRateForMonth_in_schedule:
  "getInterestRateForMonth sched m = 0 \<or>
   (\<exists>p\<in>set sched. getInterestRateForMonth sched m = irp_rate p)"
proof (cases "filter (\<lambda>p. irp_isActiveForMonth p m) sched")
  case Nil
  then show ?thesis
    by (cases sched) (simp_all add: getInterestRateForMonth_eq)
next
  case (Cons y ys)
  have "last (y # ys) \<in> set (filter (\<lambda>p. irp_isActiveForMonth p m) sched)"
    unfolding Cons by (rule last_in_set) simp
  then have "last (y # ys) \<in> set sched" by simp
  then show ?thesis
    by (auto simp: getInterestRateForMonth_eq Cons)
qed

lemma getInterestRateForMonth_all_zero:
  assumes "\<forall>p\<in>set sched. irp_rate p = 0"
  shows "getInterestRateForMonth sched m = 0"
  using getInterestRateForMonth_in_schedule [of sched m] assms by auto

lemma getInterestRateForMonth_nonneg:
  assumes "\<forall>p\<in>set sched. 0 \<le> irp_rate p"
  shows "0 \<le> getInterestRateForMonth sched m"
  using getInterestRateForMonth_in_schedule [of sched m] assms by auto

lemma validate_ok:
  assumes "validate cfg = []"
  shows "0 < principal cfg" and "0 < baseTenureMonths cfg" and "interestRateSchedule cfg \<noteq> []"
  using assms by (auto simp: validate_def split: if_splits)

lemma original_loop_unfold:
  "original_loop cfg emi month balance ti =
     (if balance > 0.01 \<and> month < baseTenureMonths cfg * 2 then
        let month' = month + 1;
            currentRate = getInterestRateForMonth (interestRateSchedule cfg) month';
            monthlyRate = currentRate / 100 / 12;
            interest = balance * monthlyRate;
            principal0 = min (emi - interest) balance;
            principal1 = (if principal0 < 0 then 0 else principal0);
            ti' = ti + interest;
            balance' = balance - principal1
        in if balance' \<le> 0.01 then (month', ti')
           else original_loop cfg emi month' balance' ti'
      else (month, ti))"
  by (rule original_loop.simps)

lemma original_loop_done:
  "\<not> (balance > 0.01 \<and> month < baseTenureMonths cfg * 2) \<Longrightarrow>
     original_loop cfg emi month balance ti = (month, ti)"
  by (subst original_loop_unfold) auto

lemma original_loop_step:
  assumes "balance > 0.01" and "month < baseTenureMonths cfg * 2"
    and r: "r = getInterestRateForMonth (interestRateSchedule cfg) (month + 1) / 100 / 12"
    and b': "b' = balance - (if min (emi - balance * r) balance < 0 then 0
                             else min (emi - balance * r) balance)"
  shows "original_loop cfg emi month balance ti =
     (if b' \<le> 0.01 then (month + 1, ti + balance * r)
      else original_loop cfg emi (month + 1) b' (ti + balance * r))"
  using assms(1,2) unfolding r b'
  by (subst original_loop_unfold) (simp only: Let_def if_True simp_thms)

lemma original_loop_zero_rate:
  assumes zero: "\<forall>m. getInterestRateForMonth (interestRateSchedule cfg) m = 0"
  shows "snd (original_loop cfg emi month balance ti) = ti"
proof (induction "nat (baseTenureMonths cfg * 2 - month)" arbitrary: month balance ti)
  case 0
  then have "\<not> (balance > 0.01 \<and> month < baseTenureMonths cfg * 2)" by simp
  then show ?case by (simp add: original_loop_done)
next
  case (Suc k)
  show ?case
  proof (cases "balance > 0.01 \<and> month < baseTenureMonths cfg * 2")
    case False
    then show ?thesis by (simp add: original_loop_done)
  next
    case True
    define b' where "b' = balance - (if min (emi - balance * 0) balance < 0 then 0
                             else min (emi - balance * 0) balance)"
    have r: "(0::real) = getInterestRateForMonth (interestRateSchedule cfg) (month + 1) / 100 / 12"
      using zero by simp
    have k: "k = nat (baseTenureMonths cfg * 2 - (month + 1))" using Suc.hyps(2) by simp
    note st = original_loop_step [OF conjunct1 [OF True] conjunct2 [OF True] r b'_def, of ti]
    show ?thesis
      unfolding st using Suc.hyps(1) [OF k, of b' ti] by simp
  qed
qed

lemma roundCurrency_error: "\<bar>roundCurrency x - x\<bar> \<le> 1 / 200"
proof -
  define k where "k = \<lfloor>x * 100 + 1 / 2\<rfloor>"
  have "real_of_int k \<le> x * 100 + 1 / 2" and "x * 100 + 1 / 2 < real_of_int k + 1"
    unfolding k_def by linarith+
  then have "\<bar>real_of_int k - x * 100\<bar> \<le> 1 / 2" by linarith
  then have bound: "\<bar>real_of_int k - x * 100\<bar> / \<bar>100\<bar> \<le> 1 / 200" by simp
  have eq: "roundCurrency x - x = (real_of_int k - x * 100) / 100"
    by (simp add: roundCurrency_def k_def diff_divide_distrib)
  show ?thesis unfolding eq abs_divide by (rule bound)
qed

lemma calc_loop_stop:
  "\<not> (cs_balance s > 0.01 \<and> month < baseTenureMonths cfg * 3) \<Longrightarrow>
     calc_loop cfg month s = Inr (month, s)"
  by (subst calc_loop_unfold) auto

lemma calc_loop_run:
  "cs_balance s > 0.01 \<Longrightarrow> month < baseTenureMonths cfg * 3 \<Longrightarrow>
     calc_loop cfg month s =
        (case calc_iteration cfg (month + 1) s of
           Inl e \<Rightarrow> Inl e
         | Inr s' \<Rightarrow>
             if cs_balance s' \<le> 0.01 then Inr (month + 1, s'\<lparr>cs_balance := 0\<rparr>)
             else calc_loop cfg (month + 1) s')"
  by (subst calc_loop_unfold) simp

lemma calc_loop_ledger:
  "calc_loop cfg month s = Inr (m', s') \<Longrightarrow> 0 \<le> cs_balance s \<Longrightarrow>
     \<exists>rows. cs_schedule s' = cs_schedule s @ rows \<and>
       prepayment_capped (cs_balance s) (cs_currentEMI s) rows \<and>
       (\<forall>row\<in>set rows. 0 \<le> pi_amount (getPrepaymentForMonth cfg (row_month row))
                       \<longrightarrow> 0 \<le> row_prepayment row)"
proof (induction cfg month s rule: calc_loop.induct)
  case (1 cfg month s)
  show ?case
  proof (cases "cs_balance s > 0.01 \<and> month < baseTenureMonths cfg * 3")
    case False
    with "1.prems"(1) have "s' = s" by (simp add: calc_loop_stop)
    then show ?thesis by simp
  next
    case True
    note run = calc_loop_run [OF conjunct1 [OF True] conjunct2 [OF True]]
    from "1.prems"(1) obtain s1 where s1: "calc_iteration cfg (month + 1) s = Inr s1"
      unfolding run by (cases "calc_iteration cfg (month + 1) s") auto
    define r where "r = getInterestRateForMonth (interestRateSchedule cfg) (month + 1) / 100 / 12"
    define p1 where "p1 = (if min (cs_currentEMI s - cs_balance s * r) (cs_balance s) < 0 then 0
                  else min (cs_currentEMI s - cs_balance s * r) (cs_balance s))"
    define A where "A = pi_amount (getPrepaymentForMonth cfg (month + 1))"
    define tp where "tp = (if A > 0 then min A (cs_balance s - p1) else 0)"
    from calc_iteration_result(4) [OF s1 "1.prems"(2)]
    obtain row where row: "cs_schedule s1 = cs_schedule s @ [row]" "row_month row = month + 1"
        "row_balance row = cs_balance s1" "row_emi row = cs_currentEMI s1"
        "row_rate row = getInterestRateForMonth (interestRateSchedule cfg) (month + 1)"
        "row_prepayment row = (if A > 0 then tp else A)"
      unfolding r_def [symmetric] p1_def [symmetric] A_def [symmetric] tp_def [symmetric]
      by blast
    have p1b: "p1 \<le> cs_balance s" using "1.prems"(2) by (auto simp: p1_def)
    have cap: "row_prepayment row \<le> cs_balance s - p1"
      using p1b by (auto simp: row(6) tp_def)
    have nonneg: "0 \<le> A \<longrightarrow> 0 \<le> row_prepayment row"
      using p1b by (auto simp: row(6) tp_def)
    have head: "prepayment_capped (cs_balance s) (cs_currentEMI s) (row # rows) =
        prepayment_capped (cs_balance s1) (cs_currentEMI s1) rows" for rows
      unfolding prepayment_capped.simps Let_def row(3,4,5) r_def [symmetric] p1_def [symmetric]
      using cap by simp
    have nn: "0 \<le> cs_balance s1"
      using calc_iteration_balance_nonneg [OF s1 "1.prems"(2)] .
    show ?thesis
    proof (cases "cs_balance s1 \<le> 0.01")
      case fin: True
      with "1.prems"(1) have "s' = s1\<lparr>cs_balance := 0\<rparr>"
        unfolding run s1 by simp
      then have sch: "cs_schedule s' = cs_schedule s @ [row]" by (simp add: row(1))
      have capd: "prepayment_capped (cs_balance s) (cs_currentEMI s) [row]"
        unfolding head by simp
      have nn1: "\<forall>row\<in>set [row]. 0 \<le> pi_amount (getPrepaymentForMonth cfg (row_month row))
                       \<longrightarrow> 0 \<le> row_prepayment row"
        using nonneg by (simp add: row(2) A_def)
      from sch capd nn1 show ?thesis by blast
    next
      case cont: False
      with "1.prems"(1) have rec: "calc_loop cfg (month + 1) s1 = Inr (m', s')"
        unfolding run s1 by simp
      from "1.IH" [OF True s1 cont rec nn]
      obtain rows where rows: "cs_schedule s' = cs_schedule s1 @ rows"
          "prepayment_capped (cs_balance s1) (cs_currentEMI s1) rows"
          "\<forall>row\<in>set rows. 0 \<le> pi_amount (getPrepaymentForMonth cfg (row_month row))
                       \<longrightarrow> 0 \<le> row_prepayment row"
        by blast
      have sch: "cs_schedule s' = cs_schedule s @ (row # rows)"
        by (simp add: rows(1) row(1))
      have capd: "prepayment_capped (cs_balance s) (cs_currentEMI s) (row # rows)"
        unfolding head by (rule rows(2))
      have nn1: "\<forall>row\<in>set (row # rows). 0 \<le> pi_amount (getPrepaymentForMonth cfg (row_month row))
                       \<longrightarrow> 0 \<le> row_prepayment row"
        using nonneg rows(3) by (simp add: row(2) A_def)
      from sch capd nn1 show ?thesis by blast
    qed
  qed
qed

lemma original_loop_run:
  "balance > 0.01 \<Longrightarrow> month < baseTenureMonths cfg * 2 \<Longrightarrow>
   original_loop cfg emi month balance ti =
       (let month' = month + 1;
            currentRate = getInterestRateForMonth (interestRateSchedule cfg) month';
            monthlyRate = currentRate / 100 / 12;
            interest = balance * monthlyRate;
            principal0 = min (emi - interest) balance;
            principal1 = (if principal0 < 0 then 0 else principal0);
            ti' = ti + interest;
            balance' = balance - principal1
        in if balance' \<le> 0.01 then (month', ti')
           else original_loop cfg emi month' balance' ti')"
  by (subst original_loop_unfold) simp

lemmas loan_eval =
  calculate_def validate_def addRatePeriod_def calculateInitialEMI_def calculateEMI_def
  calculateOriginalLoan_def original_loop_run original_loop_done calc_loop_run calc_loop_stop
  calc_iteration_def getPrepaymentForMonth_def visit_prepayment_def record_month_def
  getInterestRateForMonth_def irp_isActiveForMonth_def mp_isActiveForMonth_def
  yp_isActiveForMonth_def otp_isActiveForMonth_def calculateAverageRate_def
  estimateRemainingMonths_def Let_def power_divide

section \<open>Zero-rate loans\<close>

text \<open>
  Claim C6. For every principal \<open>P > 0\<close> and tenure \<open>n > 0\<close>, the EMI computed at the
  annual rate 0 is \<open>P / n\<close> exactly, by \<open>calculateEMI\<close> and by \<open>_emi\<close> alike (rounding
  it to cents moves it by at most half a cent), and the full amortization simulation
  of a valid configuration whose rates are all 0 accrues a total interest of 0, as
  does its baseline.
\<close>

theorem zero_rate_payment:
  assumes "0 < P" and "0 < n"
  shows "calculateEMI P 0 n = Some (P / real_of_int n) \<and>
         EMICalculator_emi P 0 n = Some (P / real_of_int n) \<and>
         \<bar>roundCurrency (P / real_of_int n) - P / real_of_int n\<bar> \<le> 1 / 200 \<and>
         (\<forall>cfg. principal cfg = P \<and> baseTenureMonths cfg = n \<and> validate cfg = [] \<and>
                (\<forall>p\<in>set (interestRateSchedule cfg). irp_rate p = 0) \<longrightarrow>
            (\<exists>res. calculate cfg = Inr res \<and> originalEMI res = P / real_of_int n \<and>
                   totalInterest res = 0 \<and> originalTotalInterest res = 0))"
proof (intro conjI allI impI)
  show "calculateEMI P 0 n = Some (P / real_of_int n)"
    using assms by (simp add: calculateEMI_def)
  show "EMICalculator_emi P 0 n = Some (P / real_of_int n)"
    using assms by (simp add: EMICalculator_emi_def)
  show "\<bar>roundCurrency (P / real_of_int n) - P / real_of_int n\<bar> \<le> 1 / 200"
    by (rule roundCurrency_error)
next
  fix cfg
  assume h: "principal cfg = P \<and> baseTenureMonths cfg = n \<and> validate cfg = [] \<and>
                (\<forall>p\<in>set (interestRateSchedule cfg). irp_rate p = 0)"
  then have zero: "\<forall>m. getInterestRateForMonth (interestRateSchedule cfg) m = 0"
    by (simp add: getInterestRateForMonth_all_zero)
  from h validate_ok [of cfg] obtain p ps where sched: "interestRateSchedule cfg = p # ps"
    by (cases "interestRateSchedule cfg") auto
  with h have p0: "irp_rate p = 0" by simp
  have emi0: "calculateInitialEMI cfg = Some (P / real_of_int n)"
    using assms h by (simp add: calculateInitialEMI_def sched p0 calculateEMI_def)
  obtain mo tio where orig: "original_loop cfg (P / real_of_int n) 0 (principal cfg) 0 = (mo, tio)"
    by (cases "original_loop cfg (P / real_of_int n) 0 (principal cfg) 0") auto
  have tio: "tio = 0"
    using original_loop_zero_rate [OF zero, of "P / real_of_int n" 0 "principal cfg" 0] orig
    by simp
  define s0 where "s0 = \<lparr>cs_balance = P, cs_currentEMI = P / real_of_int n,
      cs_totalInterestPaid = 0, cs_totalPrincipalPaid = 0, cs_schedule = []\<rparr>"
  have "0 \<le> cs_balance s0" using h assms by (simp add: s0_def)
  from calc_loop_zero_rate [OF zero this, of 0]
  obtain m' s' where loop: "calc_loop cfg 0 s0 = Inr (m', s')" "cs_totalInterestPaid s' = 0"
    by (auto simp: s0_def)
  have "calculate cfg = (case calc_loop cfg 0 s0 of
                Inl e \<Rightarrow> Inl e
              | Inr (month, s) \<Rightarrow>
                  Inr \<lparr>success = True,
                       months = month,
                       totalInterest = cs_totalInterestPaid s,
                       totalPrincipal = cs_totalPrincipalPaid s,
                       totalPayment = cs_totalPrincipalPaid s + cs_totalInterestPaid s,
                       interestSaved = max (tio - cs_totalInterestPaid s) 0,
                       tenureReduced = mo - month,
                       originalEMI = P / real_of_int n,
                       finalEMI = cs_currentEMI s,
                       originalMonths = mo,
                       originalTotalInterest = tio,
                       amortizationSchedule = cs_schedule s,
                       averageRate = calculateAverageRate cfg (cs_schedule s)\<rparr>)"
    using h emi0 orig
    by (simp add: calculate_def calculateOriginalLoan_def s0_def)
  then show "\<exists>res. calculate cfg = Inr res \<and> originalEMI res = P / real_of_int n \<and>
                   totalInterest res = 0 \<and> originalTotalInterest res = 0"
    using tio loop by simp
qed

theorem zero_rate_payment_witness:
  "(0::real) < 1200 \<and> (0::int) < 12 \<and>
   calculateEMI 1200 0 12 = Some 100 \<and> EMICalculator_emi 1200 0 12 = Some 100 \<and>
   (\<exists>res. calculate \<lparr>principal = 1200, baseTenureMonths = 12,
         interestRateSchedule = addRatePeriod [] 1 0 None,
         prepaymentStrategy = \<lparr>monthly = [], yearly = [], oneTime = []\<rparr>,
         defaultStrategy = REDUCE_TENURE\<rparr> = Inr res \<and>
      originalEMI res = 100 \<and> totalInterest res = 0)"
proof -
  have P: "(0::real) < 1200" and n: "(0::int) < 12" by simp_all
  define cfg where "cfg = \<lparr>principal = 1200, baseTenureMonths = 12,
         interestRateSchedule = addRatePeriod [] 1 0 None,
         prepaymentStrategy = \<lparr>monthly = [], yearly = [], oneTime = []\<rparr>,
         defaultStrategy = REDUCE_TENURE\<rparr>"
  have h: "principal cfg = 1200 \<and> baseTenureMonths cfg = 12 \<and> validate cfg = [] \<and>
                (\<forall>p\<in>set (interestRateSchedule cfg). irp_rate p = 0)"
    by (simp add: cfg_def validate_def addRatePeriod_def)
  note t = zero_rate_payment [OF P n]
  from t have a: "calculateEMI 1200 0 12 = Some 100" "EMICalculator_emi 1200 0 12 = Some 100"
    by simp_all
  from t have "\<forall>cfg. principal cfg = 1200 \<and> baseTenureMonths cfg = 12 \<and> validate cfg = [] \<and>
                (\<forall>p\<in>set (interestRateSchedule cfg). irp_rate p = 0) \<longrightarrow>
            (\<exists>res. calculate cfg = Inr res \<and> originalEMI res = 1200 / real_of_int 12 \<and>
                   totalInterest res = 0 \<and> originalTotalInterest res = 0)"
    by blast
  with h have "\<exists>res. calculate cfg = Inr res \<and> originalEMI res = 1200 / real_of_int 12 \<and>
                   totalInterest res = 0 \<and> originalTotalInterest res = 0"
    by blast
  then have "\<exists>res. calculate cfg = Inr res \<and> originalEMI res = 100 \<and> totalInterest res = 0"
    by auto
  with a P n show ?thesis
    unfolding cfg_def by blast
qed

section \<open>The prepayment cap in the ledger\<close>

text \<open>
  The upper bound, for the first version. In every row of a ledger of \<open>calculate\<close> whose
  run stays within the finite numbers, the recorded prepayment is at most the balance at
  the start of that month minus the scheduled principal of that month, and it is not
  negative when the amounts configured for that month sum to a non-negative total.
\<close>

lemma ledger_prepayment_capped:
  assumes "calculate cfg = Inr res"
  shows "prepayment_capped (principal cfg) (originalEMI res) (amortizationSchedule res) \<and>
         (\<forall>row\<in>set (amortizationSchedule res).
            0 \<le> pi_amount (getPrepaymentForMonth cfg (row_month row))
              \<longrightarrow> 0 \<le> row_prepayment row)"
proof -
  from assms have valid: "validate cfg = []"
    by (auto simp: calculate_def split: if_splits)
  from assms obtain emi0 where emi0: "calculateInitialEMI cfg = Some emi0"
    by (auto simp: calculate_def split: if_splits option.splits)
  define s0 where "s0 = \<lparr>cs_balance = principal cfg, cs_currentEMI = emi0,
      cs_totalInterestPaid = 0, cs_totalPrincipalPaid = 0, cs_schedule = []\<rparr>"
  from assms obtain m' s' where loop: "calc_loop cfg 0 s0 = Inr (m', s')"
      and res: "originalEMI res = emi0" "amortizationSchedule res = cs_schedule s'"
    by (auto simp: calculate_def valid emi0 s0_def split: option.splits sum.splits prod.splits)
  have "0 \<le> cs_balance s0" using validate_ok(1) [OF valid] by (simp add: s0_def)
  from calc_loop_ledger [OF loop this] show ?thesis
    by (simp add: res s0_def)
qed

lemma ledger_prepayment_capped_example:
  "\<exists>res. calculate \<lparr>principal = 100, baseTenureMonths = 2,
         interestRateSchedule = addRatePeriod [] 1 0 None,
         prepaymentStrategy = \<lparr>monthly = [], yearly = [],
            oneTime = [\<lparr>otp_amount = 30, otp_month = 1, otp_strategy = None\<rparr>]\<rparr>,
         defaultStrategy = REDUCE_TENURE\<rparr> = Inr res \<and>
      map row_prepayment (amortizationSchedule res) = [30, 0] \<and>
      prepayment_capped 100 (originalEMI res) (amortizationSchedule res)"
proof -
  define cfg where "cfg = \<lparr>principal = 100, baseTenureMonths = 2,
         interestRateSchedule = addRatePeriod [] 1 0 None,
         prepaymentStrategy = \<lparr>monthly = [], yearly = [],
            oneTime = [\<lparr>otp_amount = 30, otp_month = 1, otp_strategy = None\<rparr>]\<rparr>,
         defaultStrategy = REDUCE_TENURE\<rparr>"
  have ev: "(case calculate cfg of Inl e \<Rightarrow> False
             | Inr res \<Rightarrow> map row_prepayment (amortizationSchedule res) = [30, 0])"
    by (simp add: cfg_def loan_eval)
  then obtain res where res: "calculate cfg = Inr res"
    by (cases "calculate cfg") auto
  with ev have rows: "map row_prepayment (amortizationSchedule res) = [30, 0]" by simp
  from ledger_prepayment_capped [OF res]
  have "prepayment_capped 100 (originalEMI res) (amortizationSchedule res)"
    by (simp add: cfg_def)
  with res rows have "calculate cfg = Inr res \<and>
      map row_prepayment (amortizationSchedule res) = [30, 0] \<and>
      prepayment_capped 100 (originalEMI res) (amortizationSchedule res)"
    by simp
  then show ?thesis unfolding cfg_def by (rule exI)
qed

text \<open>
  The same bound, for one month of the second version. The amount applied to the
  balance is at most the balance minus the scheduled principal, and the row records
  its rounding to the cent; both are non-negative when the amounts configured for the
  month sum to a non-negative total.
\<close>

lemma roundCurrency_nonneg: "0 \<le> x \<Longrightarrow> 0 \<le> roundCurrency x"
  by (simp add: roundCurrency_def)

lemma v2_record_month_row:
  "\<exists>row. v2s_schedule (v2_record_month s m rate i p e tp made info st) = v2s_schedule s @ [row] \<and>
         row_prepayment row = roundCurrency tp"
  by (simp add: v2_record_month_def Let_def)

lemma v2_calc_iteration_cases:
  assumes ok: "v2_calc_iteration cfg m s = Inr s'"
  defines "r \<equiv> getInterestRateForMonth (interestRateSchedule cfg) m / 100 / 12"
  defines "p1 \<equiv> (if min (v2s_currentEMI s - v2s_balance s * r) (v2s_balance s) < 0 then 0
                  else min (v2s_currentEMI s - v2s_balance s * r) (v2s_balance s))"
  defines "A \<equiv> pi_amount (getPrepaymentForMonth cfg m)"
  defines "tp \<equiv> (if A > 0 then (if min A (v2s_balance s - p1) < 0 then 0
                                       else min A (v2s_balance s - p1)) else A)"
  shows "\<exists>p e made. s' = v2_record_month s m (getInterestRateForMonth (interestRateSchedule cfg) m)
                    (v2s_balance s * r) p e tp made (getPrepaymentForMonth cfg m)
                    (case pi_strategy (getPrepaymentForMonth cfg m) of
                       Some st \<Rightarrow> st | None \<Rightarrow> defaultStrategy cfg)"
proof (cases "A > 0")
  case False
  then have "s' = v2_record_month s m (getInterestRateForMonth (interestRateSchedule cfg) m)
                    (v2s_balance s * r) p1 (v2s_currentEMI s) tp 0 (getPrepaymentForMonth cfg m)
                    (case pi_strategy (getPrepaymentForMonth cfg m) of
                       Some st \<Rightarrow> st | None \<Rightarrow> defaultStrategy cfg)"
    using ok unfolding v2_calc_iteration_def Let_def r_def [symmetric] A_def [symmetric]
      p1_def [symmetric]
    by (simp add: tp_def)
  then show ?thesis by blast
next
  case True
  then have tp: "(if min A (v2s_balance s - p1) < 0 then 0 else min A (v2s_balance s - p1)) = tp"
    by (simp add: tp_def)
  show ?thesis
    using ok True unfolding v2_calc_iteration_def Let_def r_def [symmetric] A_def [symmetric]
      p1_def [symmetric] tp
    by (simp split: if_splits option.splits) blast+
qed

lemma v2_calc_iteration_row:
  assumes ok: "v2_calc_iteration cfg m s = Inr s'" and pos: "0 \<le> v2s_balance s"
  shows "\<exists>tp row. v2s_schedule s' = v2s_schedule s @ [row] \<and>
           row_prepayment row = roundCurrency tp \<and>
           tp \<le> v2s_balance s -
              (let interest = v2s_balance s *
                     (getInterestRateForMonth (interestRateSchedule cfg) m / 100 / 12);
                   principal0 = min (v2s_currentEMI s - interest) (v2s_balance s)
               in if principal0 < 0 then 0 else principal0) \<and>
           (0 \<le> pi_amount (getPrepaymentForMonth cfg m) \<longrightarrow> 0 \<le> tp \<and> 0 \<le> row_prepayment row)"
proof -
  define r where "r = getInterestRateForMonth (interestRateSchedule cfg) m / 100 / 12"
  define p1 where "p1 = (if min (v2s_currentEMI s - v2s_balance s * r) (v2s_balance s) < 0 then 0
                  else min (v2s_currentEMI s - v2s_balance s * r) (v2s_balance s))"
  define A where "A = pi_amount (getPrepaymentForMonth cfg m)"
  define tp where "tp = (if A > 0 then (if min A (v2s_balance s - p1) < 0 then 0
                                       else min A (v2s_balance s - p1)) else A)"
  have p1b: "p1 \<le> v2s_balance s" using pos by (auto simp: p1_def)
  have cap: "tp \<le> v2s_balance s - p1" using p1b by (auto simp: tp_def)
  have nonneg: "0 \<le> A \<longrightarrow> 0 \<le> tp" using p1b by (auto simp: tp_def)
  from v2_calc_iteration_cases [OF ok]
  obtain p e made where s': "s' = v2_record_month s m
      (getInterestRateForMonth (interestRateSchedule cfg) m)
      (v2s_balance s * r) p e tp made (getPrepaymentForMonth cfg m)
      (case pi_strategy (getPrepaymentForMonth cfg m) of
         Some st \<Rightarrow> st | None \<Rightarrow> defaultStrategy cfg)"
    unfolding r_def p1_def A_def tp_def by blast
  from v2_record_month_row obtain row where row: "v2s_schedule s' = v2s_schedule s @ [row]"
      "row_prepayment row = roundCurrency tp"
    unfolding s' by blast
  have rn: "0 \<le> A \<longrightarrow> 0 \<le> row_prepayment row"
    using nonneg by (simp add: row(2) roundCurrency_nonneg)
  have capd: "tp \<le> v2s_balance s -
              (let interest = v2s_balance s *
                     (getInterestRateForMonth (interestRateSchedule cfg) m / 100 / 12);
                   principal0 = min (v2s_currentEMI s - interest) (v2s_balance s)
               in if principal0 < 0 then 0 else principal0)"
    unfolding Let_def r_def [symmetric] p1_def [symmetric] by (rule cap)
  from row capd nonneg rn show ?thesis
    unfolding A_def by blast
qed

lemma v2_calc_loop_stop:
  "\<not> (v2s_balance s > 0.01 \<and> month < baseTenureMonths cfg * 3) \<Longrightarrow>
     v2_calc_loop cfg month s = Inr (month, s)"
  by (subst v2_calc_loop.simps) auto

lemma v2_calc_loop_run:
  "v2s_balance s > 0.01 \<Longrightarrow> month < baseTenureMonths cfg * 3 \<Longrightarrow>
     v2_calc_loop cfg month s =
        (case v2_calc_iteration cfg (month + 1) s of
           Inl e \<Rightarrow> Inl e
         | Inr s' \<Rightarrow>
             if v2s_balance s' \<le> 0.01 then Inr (month + 1, s'\<lparr>v2s_balance := 0\<rparr>)
             else v2_calc_loop cfg (month + 1) s')"
  by (subst v2_calc_loop.simps) simp

lemmas v2_loan_eval =
  v2_calculate_def validate_def addRatePeriod_def v2_calculateInitialEMI_def v2_emi_def
  original_loop_run original_loop_done v2_calc_loop_run v2_calc_loop_stop
  v2_calc_iteration_def getPrepaymentForMonth_def visit_prepayment_def v2_record_month_def
  getInterestRateForMonth_def irp_isActiveForMonth_def mp_isActiveForMonth_def
  yp_isActiveForMonth_def otp_isActiveForMonth_def calculateAverageRate_def
  v2_estimateRemainingMonths_def Let_def power_divide

lemma roundCurrency_whole:
  "roundCurrency (- 50) = - 50" "roundCurrency 0 = 0" "roundCurrency 100 = 100"
  by (simp_all add: roundCurrency_def)

text \<open>
  Claim C2. In every row of the ledger the recorded prepayment is at most the balance at
  the start of the month minus the scheduled principal of the month, and it is never
  negative. The code departs from the second half. Nothing validates the sign of a
  prepayment amount, and the cap is applied only under \<open>if (totalPrepayment > 0)\<close>; the
  first version has no clamp at zero at all, and the clamp of the second version,
  \<open>if (prepayment < 0) prepayment = 0\<close>, is inside the same \<open>if\<close>, behind a cap that is
  never negative. So for a loan of 100 over one month at 0% with a one-time prepayment
  of -50 in month 1 both versions return a ledger whose only row records the prepayment
  -50.
\<close>

theorem calculate_records_negative_prepayment:
  "(case calculate \<lparr>principal = 100, baseTenureMonths = 1,
         interestRateSchedule = addRatePeriod [] 1 0 None,
         prepaymentStrategy = \<lparr>monthly = [], yearly = [],
            oneTime = [\<lparr>otp_amount = - 50, otp_month = 1, otp_strategy = None\<rparr>]\<rparr>,
         defaultStrategy = REDUCE_TENURE\<rparr> of
      Inl e \<Rightarrow> False
    | Inr res \<Rightarrow> map row_prepayment (amortizationSchedule res) = [- 50]) \<and>
   (case v2_calculate \<lparr>principal = 100, baseTenureMonths = 1,
         interestRateSchedule = addRatePeriod [] 1 0 None,
         prepaymentStrategy = \<lparr>monthly = [], yearly = [],
            oneTime = [\<lparr>otp_amount = - 50, otp_month = 1, otp_strategy = None\<rparr>]\<rparr>,
         defaultStrategy = REDUCE_TENURE\<rparr> of
      Inl e \<Rightarrow> False
    | Inr res \<Rightarrow> map row_prepayment (v2r_amortizationSchedule res) = [- 50])"
proof -
  have v1: "(case calculate \<lparr>principal = 100, baseTenureMonths = 1,
         interestRateSchedule = addRatePeriod [] 1 0 None,
         prepaymentStrategy = \<lparr>monthly = [], yearly = [],
            oneTime = [\<lparr>otp_amount = - 50, otp_month = 1, otp_strategy = None\<rparr>]\<rparr>,
         defaultStrategy = REDUCE_TENURE\<rparr> of
      Inl e \<Rightarrow> False
    | Inr res \<Rightarrow> map row_prepayment (amortizationSchedule res) = [- 50])"
    by (simp add: loan_eval)
  have v2: "(case v2_calculate \<lparr>principal = 100, baseTenureMonths = 1,
         interestRateSchedule = addRatePeriod [] 1 0 None,
         prepaymentStrategy = \<lparr>monthly = [], yearly = [],
            oneTime = [\<lparr>otp_amount = - 50, otp_month = 1, otp_strategy = None\<rparr>]\<rparr>,
         defaultStrategy = REDUCE_TENURE\<rparr> of
      Inl e \<Rightarrow> False
    | Inr res \<Rightarrow> map row_prepayment (v2r_amortizationSchedule res) = [- 50])"
    by (simp add: v2_loan_eval roundCurrency_whole)
  from v1 v2 show ?thesis by (rule conjI)
qed

section \<open>Comparison with the no-prepayment baseline\<close>

lemma original_loop_lower:
  assumes rates: "\<forall>m. 0 \<le> getInterestRateForMonth (interestRateSchedule cfg) m"
  shows "0 \<le> balance \<Longrightarrow>
     month \<le> fst (original_loop cfg emi month balance ti) \<and>
     ti \<le> snd (original_loop cfg emi month balance ti)"
proof (induction "nat (baseTenureMonths cfg * 2 - month)" arbitrary: month balance ti)
  case 0
  then have "\<not> (balance > 0.01 \<and> month < baseTenureMonths cfg * 2)" by simp
  then show ?case by (simp add: original_loop_done)
next
  case (Suc k)
  show ?case
  proof (cases "balance > 0.01 \<and> month < baseTenureMonths cfg * 2")
    case False
    then show ?thesis by (simp add: original_loop_done)
  next
    case True
    define r where "r = getInterestRateForMonth (interestRateSchedule cfg) (month + 1) / 100 / 12"
    define b' where "b' = balance - (if min (emi - balance * r) balance < 0 then 0
                             else min (emi - balance * r) balance)"
    have r0: "0 \<le> r" using rates by (simp add: r_def)
    have int0: "0 \<le> balance * r" using r0 Suc.prems by simp
    have b0: "0 \<le> b'" using Suc.prems by (auto simp: b'_def)
    have k: "k = nat (baseTenureMonths cfg * 2 - (month + 1))" using Suc.hyps(2) by simp
    note st = original_loop_step [OF conjunct1 [OF True] conjunct2 [OF True] r_def b'_def, of ti]
    show ?thesis
      unfolding st using Suc.hyps(1) [OF k b0, of "ti + balance * r"] int0 by auto
  qed
qed

lemma calc_loop_total_no_reduce_emi:
  assumes noRE: "\<forall>m. pi_amount (getPrepaymentForMonth cfg m) > 0 \<longrightarrow>
      (case pi_strategy (getPrepaymentForMonth cfg m) of
         Some st \<Rightarrow> st | None \<Rightarrow> defaultStrategy cfg) = REDUCE_TENURE"
  shows "\<exists>m' s'. calc_loop cfg month s = Inr (m', s')"
  using noRE
proof (induction cfg month s rule: calc_loop.induct)
  case (1 cfg month s)
  show ?case
  proof (cases "cs_balance s > 0.01 \<and> month < baseTenureMonths cfg * 3")
    case False
    then show ?thesis by (simp add: calc_loop_stop)
  next
    case True
    note run = calc_loop_run [OF conjunct1 [OF True] conjunct2 [OF True]]
    have "(case pi_strategy (getPrepaymentForMonth cfg (month + 1)) of
            Some st \<Rightarrow> st | None \<Rightarrow> defaultStrategy cfg) \<noteq> REDUCE_EMI
           \<or> \<not> pi_amount (getPrepaymentForMonth cfg (month + 1)) > 0"
      using "1.prems" [rule_format, of "month + 1"] by auto
    from calc_iteration_total_no_reduce_emi [OF this, of s]
    obtain s1 where s1: "calc_iteration cfg (month + 1) s = Inr s1" by blast
    show ?thesis
    proof (cases "cs_balance s1 \<le> 0.01")
      case True
      then show ?thesis unfolding run s1 by simp
    next
      case False
      from "1.IH" [OF True s1 False "1.prems"] show ?thesis
        unfolding run s1 using False by simp
    qed
  qed
qed

lemma calc_loop_below_baseline:
  assumes rates: "\<forall>m. 0 \<le> getInterestRateForMonth (interestRateSchedule cfg) m"
    and noRE: "\<forall>m. pi_amount (getPrepaymentForMonth cfg m) > 0 \<longrightarrow>
      (case pi_strategy (getPrepaymentForMonth cfg m) of
         Some st \<Rightarrow> st | None \<Rightarrow> defaultStrategy cfg) = REDUCE_TENURE"
    and n0: "0 \<le> baseTenureMonths cfg"
  shows "0 \<le> cs_balance s \<Longrightarrow> cs_balance s \<le> bo \<Longrightarrow> cs_totalInterestPaid s \<le> tio \<Longrightarrow>
     cs_currentEMI s = emi \<Longrightarrow> original_loop cfg emi month bo tio = (mo, tfin) \<Longrightarrow>
     mo < baseTenureMonths cfg * 2 \<Longrightarrow>
     \<exists>mc sc. calc_loop cfg month s = Inr (mc, sc) \<and> mc \<le> mo \<and> cs_totalInterestPaid sc \<le> tfin"
proof (induction "nat (baseTenureMonths cfg * 2 - month)" arbitrary: month s bo tio)
  case 0
  then have nr: "\<not> (bo > 0.01 \<and> month < baseTenureMonths cfg * 2)" by simp
  with "0.prems"(5) have "mo = month" by (simp add: original_loop_done)
  with "0.prems"(6) "0.hyps" show ?case by simp
next
  case (Suc k)
  have lower: "month \<le> mo" "tio \<le> tfin"
    using original_loop_lower [OF rates, of bo month emi tio] Suc.prems(1,2,5) by simp_all
  show ?case
  proof (cases "cs_balance s > 0.01")
    case False
    then have "calc_loop cfg month s = Inr (month, s)" by (simp add: calc_loop_stop)
    with lower Suc.prems(3) show ?thesis by simp
  next
    case cpos: True
    with Suc.prems(2) have bopos: "bo > 0.01" by simp
    have m2: "month < baseTenureMonths cfg * 2" using Suc.hyps(2) by simp
    with n0 have m3: "month < baseTenureMonths cfg * 3" by simp
    define r where "r = getInterestRateForMonth (interestRateSchedule cfg) (month + 1) / 100 / 12"
    define bo' where "bo' = bo - (if min (emi - bo * r) bo < 0 then 0 else min (emi - bo * r) bo)"
    have r0: "0 \<le> r" using rates by (simp add: r_def)
    note ost = original_loop_step [OF bopos m2 r_def bo'_def, of tio]
    have bo0: "0 \<le> bo'" using bopos by (auto simp: bo'_def)
    note run = calc_loop_run [OF cpos m3]
    have nore: "(case pi_strategy (getPrepaymentForMonth cfg (month + 1)) of
            Some st \<Rightarrow> st | None \<Rightarrow> defaultStrategy cfg) \<noteq> REDUCE_EMI
           \<or> \<not> pi_amount (getPrepaymentForMonth cfg (month + 1)) > 0"
      using noRE [rule_format, of "month + 1"] by auto
    from calc_iteration_total_no_reduce_emi [OF nore, of s]
    obtain s1 where s1: "calc_iteration cfg (month + 1) s = Inr s1" by blast
    define c where "c = cs_balance s"
    define p1 where "p1 = (if min (emi - c * r) c < 0 then 0 else min (emi - c * r) c)"
    define A where "A = pi_amount (getPrepaymentForMonth cfg (month + 1))"
    define tp where "tp = (if A > 0 then min A (c - p1) else 0)"
    have bal1: "cs_balance s1 = c - (p1 + tp)"
      using calc_iteration_result(1) [OF s1 Suc.prems(1)]
      by (simp add: c_def p1_def tp_def A_def r_def Suc.prems(4))
    have ti1: "cs_totalInterestPaid s1 = cs_totalInterestPaid s + c * r"
      using calc_iteration_result(2) [OF s1 Suc.prems(1)] by (simp add: c_def r_def)
    have emi1: "cs_currentEMI s1 = emi"
      using calc_iteration_result(5) [OF s1 Suc.prems(1) nore] Suc.prems(4) by simp
    have nn1: "0 \<le> cs_balance s1"
      using calc_iteration_balance_nonneg [OF s1 Suc.prems(1)] .
    have c0: "0 \<le> c" and cbo: "c \<le> bo" using Suc.prems(1,2) by (simp_all add: c_def)
    have cr: "c * r \<le> bo * r" using cbo r0 by (rule mult_right_mono)
    have p1c: "p1 \<le> c" using c0 by (auto simp: p1_def)
    have tp0: "0 \<le> tp" using p1c by (auto simp: tp_def)
    have "c - p1 \<le> bo'"
      using cbo cr c0 by (auto simp: p1_def bo'_def min_def split: if_splits)
    with tp0 bal1 have b1le: "cs_balance s1 \<le> bo'" by simp
    have ti1le: "cs_totalInterestPaid s1 \<le> tio + bo * r"
      using ti1 cr Suc.prems(3) by simp
    show ?thesis
    proof (cases "cs_balance s1 \<le> 0.01")
      case fin: True
      then have res: "calc_loop cfg month s = Inr (month + 1, s1\<lparr>cs_balance := 0\<rparr>)"
        unfolding run s1 by simp
      have "month + 1 \<le> mo \<and> tio + bo * r \<le> tfin"
      proof (cases "bo' \<le> 0.01")
        case True
        with Suc.prems(5) show ?thesis unfolding ost by simp
      next
        case False
        with Suc.prems(5) have "original_loop cfg emi (month + 1) bo' (tio + bo * r) = (mo, tfin)"
          unfolding ost by simp
        with original_loop_lower [OF rates bo0, of "month + 1" emi "tio + bo * r"]
        show ?thesis by simp
      qed
      with ti1le show ?thesis unfolding res by simp
    next
      case cont: False
      with b1le have bo'pos: "\<not> bo' \<le> 0.01" by simp
      with Suc.prems(5) have orec: "original_loop cfg emi (month + 1) bo' (tio + bo * r) = (mo, tfin)"
        unfolding ost by simp
      have k: "k = nat (baseTenureMonths cfg * 2 - (month + 1))" using Suc.hyps(2) by simp
      from Suc.hyps(1) [OF k nn1 b1le ti1le emi1 orec Suc.prems(6)]
      show ?thesis unfolding run s1 using cont by simp
    qed
  qed
qed

lemma calculateEMI_nonneg_rate:
  assumes "0 \<le> rate"
  shows "calculateEMI p rate n \<noteq> None"
proof (cases "p \<le> 0 \<or> n \<le> 0 \<or> rate / 100 / 12 = 0")
  case True
  then show ?thesis by (auto simp: calculateEMI_def Let_def)
next
  case False
  then have "0 < nat n" and "1 < 1 + rate / 100 / 12" using assms by auto
  then have "1 < (1 + rate / 100 / 12) ^ nat n" by (simp add: one_less_power)
  then show ?thesis using False by (simp add: calculateEMI_def Let_def)
qed

text \<open>
  Claim C3 (as amended). For every valid configuration with non-negative rates in which
  every applied prepayment resolves to REDUCE_TENURE, \<open>calculate\<close> returns a result, and
  when the no-prepayment baseline has paid the loan off before its own cap of twice the
  base tenure (\<open>originalMonths < 2 * baseTenureMonths\<close>), the result has
  \<open>months \<le> originalMonths\<close> and \<open>totalInterest \<le> originalTotalInterest\<close>.
\<close>

theorem baseline_monotone_reduce_tenure:
  assumes valid: "validate cfg = []"
    and rates: "\<forall>p\<in>set (interestRateSchedule cfg). 0 \<le> irp_rate p"
    and noRE: "\<forall>m. pi_amount (getPrepaymentForMonth cfg m) > 0 \<longrightarrow>
      (case pi_strategy (getPrepaymentForMonth cfg m) of
         Some st \<Rightarrow> st | None \<Rightarrow> defaultStrategy cfg) = REDUCE_TENURE"
  shows "\<exists>res. calculate cfg = Inr res \<and>
           (originalMonths res < baseTenureMonths cfg * 2 \<longrightarrow>
              months res \<le> originalMonths res \<and>
              totalInterest res \<le> originalTotalInterest res)"
proof -
  note v = validate_ok [OF valid]
  have rates': "\<forall>m. 0 \<le> getInterestRateForMonth (interestRateSchedule cfg) m"
    using rates by (simp add: getInterestRateForMonth_nonneg)
  obtain p ps where sched: "interestRateSchedule cfg = p # ps"
    using v(3) by (cases "interestRateSchedule cfg") auto
  have "0 \<le> irp_rate p" using rates sched by simp
  from calculateEMI_nonneg_rate [OF this, of "principal cfg" "baseTenureMonths cfg"]
  obtain emi0 where emi0: "calculateInitialEMI cfg = Some emi0"
    by (auto simp: calculateInitialEMI_def sched)
  obtain mo tfin where orig: "original_loop cfg emi0 0 (principal cfg) 0 = (mo, tfin)"
    by (cases "original_loop cfg emi0 0 (principal cfg) 0") auto
  define s0 where "s0 = \<lparr>cs_balance = principal cfg, cs_currentEMI = emi0,
      cs_totalInterestPaid = 0, cs_totalPrincipalPaid = 0, cs_schedule = []\<rparr>"
  from calc_loop_total_no_reduce_emi [OF noRE, of 0 s0]
  obtain mc sc where loop: "calc_loop cfg 0 s0 = Inr (mc, sc)" by blast
  define res where "res = \<lparr>success = True,
                       months = mc,
                       totalInterest = cs_totalInterestPaid sc,
                       totalPrincipal = cs_totalPrincipalPaid sc,
                       totalPayment = cs_totalPrincipalPaid sc + cs_totalInterestPaid sc,
                       interestSaved = max (tfin - cs_totalInterestPaid sc) 0,
                       tenureReduced = mo - mc,
                       originalEMI = emi0,
                       finalEMI = cs_currentEMI sc,
                       originalMonths = mo,
                       originalTotalInterest = tfin,
                       amortizationSchedule = cs_schedule sc,
                       averageRate = calculateAverageRate cfg (cs_schedule sc)\<rparr>"
  have calc: "calculate cfg = Inr res"
    using valid emi0 orig loop
    by (simp add: calculate_def calculateOriginalLoan_def s0_def res_def)
  have "months res \<le> originalMonths res \<and> totalInterest res \<le> originalTotalInterest res"
    if cap: "originalMonths res < baseTenureMonths cfg * 2"
  proof -
    have mo2: "mo < baseTenureMonths cfg * 2" using cap by (simp add: res_def)
    have n0: "0 \<le> baseTenureMonths cfg" using v(2) by simp
    from calc_loop_below_baseline [OF rates' noRE n0, of s0 "principal cfg" 0 emi0 0 mo tfin]
      v(1) orig mo2 loop
    show ?thesis by (simp add: s0_def res_def)
  qed
  with calc show ?thesis by blast
qed

theorem baseline_monotone_reduce_tenure_witness:
  "\<exists>res. calculate \<lparr>principal = 100, baseTenureMonths = 2,
         interestRateSchedule = addRatePeriod [] 1 0 None,
         prepaymentStrategy = \<lparr>monthly = [], yearly = [],
            oneTime = [\<lparr>otp_amount = 50, otp_month = 1, otp_strategy = None\<rparr>]\<rparr>,
         defaultStrategy = REDUCE_TENURE\<rparr> = Inr res \<and>
      originalMonths res = 2 \<and> months res = 1 \<and>
      months res \<le> originalMonths res \<and> totalInterest res \<le> originalTotalInterest res"
proof -
  define cfg where "cfg = \<lparr>principal = 100, baseTenureMonths = 2,
         interestRateSchedule = addRatePeriod [] 1 0 None,
         prepaymentStrategy = \<lparr>monthly = [], yearly = [],
            oneTime = [\<lparr>otp_amount = 50, otp_month = 1, otp_strategy = None\<rparr>]\<rparr>,
         defaultStrategy = REDUCE_TENURE\<rparr>"
  have valid: "validate cfg = []"
    by (simp add: cfg_def validate_def addRatePeriod_def)
  have rates: "\<forall>p\<in>set (interestRateSchedule cfg). 0 \<le> irp_rate p"
    by (simp add: cfg_def addRatePeriod_def)
  have noRE: "\<forall>m. pi_amount (getPrepaymentForMonth cfg m) > 0 \<longrightarrow>
      (case pi_strategy (getPrepaymentForMonth cfg m) of
         Some st \<Rightarrow> st | None \<Rightarrow> defaultStrategy cfg) = REDUCE_TENURE"
    by (simp add: cfg_def getPrepaymentForMonth_def visit_prepayment_def)
  have ev: "(case calculate cfg of Inl e \<Rightarrow> False
             | Inr res \<Rightarrow> originalMonths res = 2 \<and> months res = 1)"
    by (simp add: cfg_def loan_eval)
  from baseline_monotone_reduce_tenure [OF valid rates noRE]
  obtain res where res: "calculate cfg = Inr res"
      "originalMonths res < baseTenureMonths cfg * 2 \<longrightarrow>
              months res \<le> originalMonths res \<and>
              totalInterest res \<le> originalTotalInterest res"
    by blast
  from ev res(1) have m: "originalMonths res = 2" "months res = 1" by simp_all
  with res(2) have "months res \<le> originalMonths res \<and>
              totalInterest res \<le> originalTotalInterest res"
    by (simp add: cfg_def)
  with res(1) m show ?thesis unfolding cfg_def by blast
qed

text \<open>
  Claim C3 as stated fails in two ways. With a payment that cannot amortize the loan
  (an EMI computed at 0% while 1200% a year applies) the baseline stops at its cap of
  twice the base tenure and the main loop runs on to three times the base tenure:
  3 months against 2, interest 297 against 200, under REDUCE_TENURE. Under REDUCE_EMI
  a prepayment of 99 in a first month at 0% lowers the payment from 10201 to 9800, and
  at 12% from the second month on the loan takes 3 months against the baseline's 2.
\<close>

theorem baseline_monotone_counterexample:
  "(case calculate \<lparr>principal = 100, baseTenureMonths = 1,
         interestRateSchedule = addRatePeriod (addRatePeriod [] 1 0 None) 1 1200 None,
         prepaymentStrategy = \<lparr>monthly = [], yearly = [],
            oneTime = [\<lparr>otp_amount = 1, otp_month = 1, otp_strategy = None\<rparr>]\<rparr>,
         defaultStrategy = REDUCE_TENURE\<rparr> of
      Inl e \<Rightarrow> False
    | Inr res \<Rightarrow> months res = 3 \<and> originalMonths res = 2 \<and>
        totalInterest res = 297 \<and> originalTotalInterest res = 200) \<and>
   (case calculate \<lparr>principal = 20100, baseTenureMonths = 2,
         interestRateSchedule = addRatePeriod (addRatePeriod [] 1 12 None) 1 0 (Some 1),
         prepaymentStrategy = \<lparr>monthly = [], yearly = [],
            oneTime = [\<lparr>otp_amount = 99, otp_month = 1, otp_strategy = Some REDUCE_EMI\<rparr>]\<rparr>,
         defaultStrategy = REDUCE_TENURE\<rparr> of
      Inl e \<Rightarrow> False
    | Inr res \<Rightarrow> months res = 3 \<and> originalMonths res = 2 \<and>
        originalEMI res = 10201 \<and> finalEMI res = 9800)"
proof -
  have part1: "(case calculate \<lparr>principal = 100, baseTenureMonths = 1,
         interestRateSchedule = addRatePeriod (addRatePeriod [] 1 0 None) 1 1200 None,
         prepaymentStrategy = \<lparr>monthly = [], yearly = [],
            oneTime = [\<lparr>otp_amount = 1, otp_month = 1, otp_strategy = None\<rparr>]\<rparr>,
         defaultStrategy = REDUCE_TENURE\<rparr> of
      Inl e \<Rightarrow> False
    | Inr res \<Rightarrow> months res = 3 \<and> originalMonths res = 2 \<and>
        totalInterest res = 297 \<and> originalTotalInterest res = 200)"
    by (simp add: loan_eval)
  have c1: "\<lceil>(9800::real) / 10201\<rceil> = 1" by (simp add: ceiling_eq_iff)
  have part2: "(case calculate \<lparr>principal = 20100, baseTenureMonths = 2,
         interestRateSchedule = addRatePeriod (addRatePeriod [] 1 12 None) 1 0 (Some 1),
         prepaymentStrategy = \<lparr>monthly = [], yearly = [],
            oneTime = [\<lparr>otp_amount = 99, otp_month = 1, otp_strategy = Some REDUCE_EMI\<rparr>]\<rparr>,
         defaultStrategy = REDUCE_TENURE\<rparr> of
      Inl e \<Rightarrow> False
    | Inr res \<Rightarrow> months res = 3 \<and> originalMonths res = 2 \<and>
        originalEMI res = 10201 \<and> finalEMI res = 9800)"
    by (simp add: loan_eval c1)
  from part1 part2 show ?thesis by (rule conjI)
qed

end
